theory Spec2Isabelle
  imports Complex_Main
begin

section \<open>Split-operator integration of the double-well Schroedinger equation\<close>

text \<open>
  A shallow embedding of \<^verbatim>\<open>amoniaco.py\<close>. Floating-point numbers are read as
  real and complex numbers (exact arithmetic), numpy arrays as lists, and the
  module-level constants of the script as one record of parameters.

  Where numpy raises, the model returns \<open>Inl\<close> of the exception. Where numpy
  only warns and fills the array with \<^verbatim>\<open>nan\<close> or \<^verbatim>\<open>inf\<close> (a division by a zero
  float inside an array expression, the square root of a negative number), no
  real number describes the outcome and the model returns \<open>Inl NotANumber\<close>.
\<close>

datatype error = ValueError | ZeroDivisionError | IndexError | NotANumber

subsection \<open>The potential (lines 23-48)\<close>

text \<open>
  \<^verbatim>\<open>np.empty_like\<close> returns an array whose cells hold no defined value: a cell
  is \<open>None\<close> until an assignment writes it. A masked assignment
  \<^verbatim>\<open>arr[mask] = v\<close> writes \<open>v\<close> into the cells where the mask is true.
\<close>

definition empty_like :: "'a list \<Rightarrow> real option list" where
  "empty_like xs = replicate (length xs) None"

definition mask_assign :: "real option list \<Rightarrow> bool list \<Rightarrow> real \<Rightarrow> real option list" where
  "mask_assign arr cond v = map2 (\<lambda>c b. if b then Some v else c) arr cond"

text \<open>The array form of \<^verbatim>\<open>V(x, t, V0, type=6)\<close>; \<open>t\<close> and \<open>type\<close> are not read.\<close>

definition V :: "real list \<Rightarrow> real \<Rightarrow> real \<Rightarrow> real option list" where
  "V xs t v0 =
     (let a = 7 / 100;
          b = 4 / 100;
          V_out = 1000000;
          V_array = empty_like xs;
          V_array = mask_assign V_array (map (\<lambda>xi. \<bar>xi\<bar> > a) xs) V_out;
          cond_wells = map (\<lambda>xi. \<bar>xi\<bar> \<le> a \<and> \<bar>xi\<bar> > b) xs;
          V_array = mask_assign V_array cond_wells 0;
          cond_barrier = map (\<lambda>xi. \<bar>xi\<bar> \<le> b) xs;
          V_array = mask_assign V_array cond_barrier v0
      in V_array)"

text \<open>
  The same body on a scalar position: numpy makes a zero-dimensional array of
  one cell, and a boolean scalar index writes the cell when it is true.
\<close>

definition V_scalar :: "real \<Rightarrow> real \<Rightarrow> real \<Rightarrow> real option" where
  "V_scalar xi t v0 =
     (let a = 7 / 100;
          b = 4 / 100;
          V_out = 1000000;
          V_array = None;
          V_array = (if \<bar>xi\<bar> > a then Some V_out else V_array);
          cond_wells = (\<bar>xi\<bar> \<le> a \<and> \<bar>xi\<bar> > b);
          V_array = (if cond_wells then Some 0 else V_array);
          cond_barrier = (\<bar>xi\<bar> \<le> b);
          V_array = (if cond_barrier then Some v0 else V_array)
      in V_array)"

subsection \<open>Module-level variables (lines 165-180)\<close>

text \<open>
  The functions of the script read the module-level variables \<^verbatim>\<open>L\<close>, \<^verbatim>\<open>Nx\<close>,
  \<^verbatim>\<open>dx\<close>, \<^verbatim>\<open>Nt\<close>, \<^verbatim>\<open>dt\<close>, \<^verbatim>\<open>f\<close>, \<^verbatim>\<open>x\<close>, \<^verbatim>\<open>hbar\<close>, \<^verbatim>\<open>m\<close> and \<^verbatim>\<open>V0\<close>.
  The counts \<^verbatim>\<open>Nx\<close>, \<^verbatim>\<open>Nt\<close> and \<^verbatim>\<open>f\<close> are natural numbers.
\<close>

record globals =
  L :: real
  Nx :: nat
  dx :: real
  Nt :: nat
  dt :: real
  f :: nat
  x :: "real list"
  hbar :: real
  m :: real
  V0 :: real

text \<open>
  \<^verbatim>\<open>np.linspace(start, stop, num)\<close> with its default \<^verbatim>\<open>endpoint=True\<close>: the
  indices \<open>0, \<dots>, num - 1\<close> are scaled by \<open>step = (stop - start) / (num - 1)\<close>
  when \<open>num > 1\<close>, shifted by \<open>start\<close>, and the last entry is set to \<open>stop\<close>.
\<close>

definition linspace :: "real \<Rightarrow> real \<Rightarrow> nat \<Rightarrow> real list" where
  "linspace start stop num =
     (let divisor = num - 1;
          delta = stop - start;
          y = map real [0..<num];
          y = (if divisor > 0 then map (\<lambda>v. v * (delta / real divisor)) y
               else map (\<lambda>v. v * delta) y);
          y = map (\<lambda>v. v + start) y;
          y = (if num > 1 then y[num - 1 := stop] else y)
      in y)"

text \<open>
  Lines 165-180 with the eight constants as arguments. \<^verbatim>\<open>dx = L / Nx\<close> divides
  a float by an int and raises for \<open>Nx = 0\<close>.
\<close>

definition module_globals ::
  "real \<Rightarrow> nat \<Rightarrow> nat \<Rightarrow> real \<Rightarrow> nat \<Rightarrow> real \<Rightarrow> real \<Rightarrow> real \<Rightarrow> error + globals" where
  "module_globals L' Nx' Nt' dt' f' hbar' m' V0' =
     (if Nx' = 0 then Inl ZeroDivisionError
      else Inr \<lparr>L = L', Nx = Nx', dx = L' / real Nx', Nt = Nt', dt = dt', f = f',
                x = linspace (- L' / 2) (L' / 2) Nx', hbar = hbar', m = m', V0 = V0'\<rparr>)"

subsection \<open>Sequencing and array primitives\<close>

text \<open>The first exception ends the computation.\<close>

definition bnd :: "error + 'a \<Rightarrow> ('a \<Rightarrow> error + 'b) \<Rightarrow> error + 'b" where
  "bnd r k = (case r of Inl e \<Rightarrow> Inl e | Inr v \<Rightarrow> k v)"

text \<open>\<^verbatim>\<open>for i in range(...)\<close> over a state.\<close>

primrec for_loop :: "nat list \<Rightarrow> (nat \<Rightarrow> 's \<Rightarrow> error + 's) \<Rightarrow> 's \<Rightarrow> error + 's" where
  "for_loop [] body s = Inr s"
| "for_loop (i # rest) body s = bnd (body i s) (for_loop rest body)"

text \<open>
  \<^verbatim>\<open>a *= b\<close> on one-dimensional arrays: \<open>b\<close> must have the length of \<open>a\<close>, or
  length one, and is then broadcast; any other shape raises.
\<close>

definition imul :: "complex list \<Rightarrow> complex list \<Rightarrow> error + complex list" where
  "imul a b =
     (if length b = length a then Inr (map2 (*) a b)
      else if length b = 1 then Inr (map (\<lambda>z. z * hd b) a)
      else Inl ValueError)"

text \<open>\<^verbatim>\<open>arr[i]\<close> and \<^verbatim>\<open>arr[i] = v\<close> for an index \<open>i \<ge> 0\<close>, and \<^verbatim>\<open>arr[-1]\<close>.\<close>

definition get_item :: "'a list \<Rightarrow> nat \<Rightarrow> error + 'a" where
  "get_item arr i = (if i < length arr then Inr (arr ! i) else Inl IndexError)"

definition get_last :: "'a list \<Rightarrow> error + 'a" where
  "get_last arr = (if arr = [] then Inl IndexError else Inr (last arr))"

definition set_item :: "'a list \<Rightarrow> nat \<Rightarrow> 'a \<Rightarrow> error + 'a list" where
  "set_item arr i v = (if i < length arr then Inr (arr[i := v]) else Inl IndexError)"

text \<open>
  \<^verbatim>\<open>arr[i] = row\<close> on a two-dimensional array: the row must have the length
  of the rows of \<open>arr\<close>, or length one, and is then broadcast.
\<close>

definition set_row :: "real list list \<Rightarrow> nat \<Rightarrow> real list \<Rightarrow> error + real list list" where
  "set_row arr i row =
     (if \<not> i < length arr then Inl IndexError
      else if length row = length (arr ! i) then Inr (arr[i := row])
      else if length row = 1 then Inr (arr[i := replicate (length (arr ! i)) (hd row)])
      else Inl ValueError)"

text \<open>\<^verbatim>\<open>np.abs(psi)**2\<close> and \<^verbatim>\<open>np.sum(np.abs(psi)**2) * dx\<close>.\<close>

definition abs2 :: "complex list \<Rightarrow> real list" where
  "abs2 psi = map (\<lambda>z. (cmod z)\<^sup>2) psi"

definition discrete_norm :: "globals \<Rightarrow> complex list \<Rightarrow> real" where
  "discrete_norm g psi = sum_list (abs2 psi) * dx g"

subsection \<open>The discrete Fourier transform of numpy\<close>

text \<open>
  \<^verbatim>\<open>np.fft.fft\<close> computes \<open>A\<^sub>k = \<Sum>\<^sub>l a\<^sub>l exp(-2\<pi>i lk/n)\<close> and \<^verbatim>\<open>np.fft.ifft\<close>
  computes \<open>a\<^sub>l = (1/n) \<Sum>\<^sub>k A\<^sub>k exp(2\<pi>i lk/n)\<close>, with \<open>exp(i\<theta>)\<close> written
  \<open>cis \<theta>\<close>; both raise on an array without elements.
\<close>

definition DFT :: "complex list \<Rightarrow> complex list" where
  "DFT a =
     (let n = length a
      in map (\<lambda>k. \<Sum>l<n. a ! l * cis (- (2 * pi * real l * real k / real n))) [0..<n])"

definition IDFT :: "complex list \<Rightarrow> complex list" where
  "IDFT A =
     (let n = length A
      in map (\<lambda>l. (\<Sum>k<n. A ! k * cis (2 * pi * real l * real k / real n)) / of_nat n) [0..<n])"

definition fft :: "complex list \<Rightarrow> error + complex list" where
  "fft a = (if a = [] then Inl ValueError else Inr (DFT a))"

definition ifft :: "complex list \<Rightarrow> error + complex list" where
  "ifft A = (if A = [] then Inl ValueError else Inr (IDFT A))"

text \<open>
  \<^verbatim>\<open>np.fft.fftfreq(n, d)\<close>: \<^verbatim>\<open>val = 1.0 / (n * d)\<close> raises when \<open>n * d\<close> is
  zero; the integers \<open>0, \<dots>, N - 1\<close> with \<open>N = (n - 1) // 2 + 1\<close> are followed by
  \<open>-(n // 2), \<dots>, -1\<close>, and all are multiplied by \<open>val\<close>.
\<close>

definition fftfreq :: "nat \<Rightarrow> real \<Rightarrow> error + real list" where
  "fftfreq n d =
     (if real n * d = 0 then Inl ZeroDivisionError
      else
        (let val = 1 / (real n * d);
             N = (n - 1) div 2 + 1;
             p1 = map int [0..<N];
             p2 = map (\<lambda>i. int i - int (n div 2)) [0..<n div 2];
             results = p1 @ p2
         in Inr (map (\<lambda>r. real_of_int r * val) results)))"

subsection \<open>The kinetic operator (lines 77-82)\<close>

text \<open>
  The division by \<open>2 * m\<close> is a division of an array by a float: for \<open>m = 0\<close>
  numpy warns and the factors are \<^verbatim>\<open>nan\<close>. The in-place product raises first
  when the shapes do not fit.
\<close>

definition Top :: "globals \<Rightarrow> complex list \<Rightarrow> real \<Rightarrow> error + complex list" where
  "Top g psi tau =
     bnd (fft psi) (\<lambda>psi_k.
     bnd (fftfreq (Nx g) (dx g)) (\<lambda>freqs.
       let k_vec = map (\<lambda>v. v * 2 * pi) freqs
       in
     bnd (imul psi_k
            (map (\<lambda>k. exp (- \<i> * of_real (hbar g * k\<^sup>2 * tau) / of_real (2 * m g))) k_vec))
         (\<lambda>psi_k.
     if m g = 0 then Inl NotANumber else ifft psi_k)))"

subsection \<open>The potential operator (lines 87-89)\<close>

text \<open>
  A cell of the potential array that no assignment wrote has no value to
  read: the model stops with \<open>NotANumber\<close> there. For \<open>hbar = 0\<close> the factors
  are \<^verbatim>\<open>nan\<close>. The wavefunction is an array of complex numbers, as \<^verbatim>\<open>Top\<close>
  returns it: the in-place product does not accept an array of floats.
\<close>

definition Vop :: "globals \<Rightarrow> complex list \<Rightarrow> real list \<Rightarrow> real \<Rightarrow> real \<Rightarrow> error + complex list" where
  "Vop g psi xs t tau =
     (case those (V xs (t + tau / 2) (V0 g)) of
        None \<Rightarrow> Inl NotANumber
      | Some vs \<Rightarrow>
          bnd (imul psi
                 (map (\<lambda>v. exp (- \<i> * of_real v * of_real tau / of_real (hbar g))) vs))
              (\<lambda>psi.
          if hbar g = 0 then Inl NotANumber else Inr psi))"

subsection \<open>Initialisation (lines 53-72)\<close>

text \<open>
  The three diagnostic arrays. The field \<open>writes\<close> is no variable of the
  script: it lists, in the order of execution, the slot index of every
  indexed assignment to one of the three arrays, so that statements on the
  order and the number of writes can be made.
\<close>

datatype buffer = Density | Time | Norm

record diag =
  density_prob :: "real list list"
  time_arr :: "real list"
  norm_arr :: "real list"
  writes :: "(buffer \<times> nat) list"

text \<open>
  \<^verbatim>\<open>Nt // f\<close> raises for \<open>f = 0\<close>. When \<open>sum(|psi|^2) * dx\<close> is not positive,
  \<^verbatim>\<open>norm0\<close> is zero or \<^verbatim>\<open>nan\<close>, and so are the entries of the quotient when it
  has any. The wavefunction returned is an array of floats.
\<close>

definition init :: "globals \<Rightarrow> error + (diag \<times> real list)" where
  "init g =
     (let sigma = 5 / 1000;
          center = 6 / 100;
          psi = map (\<lambda>xi. exp (- ((xi - center)\<^sup>2) / (2 * sigma\<^sup>2))) (x g);
          s0 = sum_list (map (\<lambda>v. \<bar>v\<bar>\<^sup>2) psi) * dx g;
          norm0 = sqrt s0;
          psi = map (\<lambda>v. v / norm0) psi
      in
        if f g = 0 then Inl ZeroDivisionError
        else if s0 \<le> 0 \<and> psi \<noteq> [] then Inl NotANumber
        else
          (let density_prob = replicate (Nt g div f g + 1) (replicate (Nx g) 0);
               time_arr = replicate (Nt g div f g + 1) 0;
               norm_arr = replicate (Nt g div f g + 1) 0
           in
             bnd (set_row density_prob 0 (map (\<lambda>v. \<bar>v\<bar>\<^sup>2) psi)) (\<lambda>density_prob.
             bnd (set_item norm_arr 0 (sum_list (map (\<lambda>v. \<bar>v\<bar>\<^sup>2) psi) * dx g)) (\<lambda>norm_arr.
             Inr (\<lparr>density_prob = density_prob, time_arr = time_arr, norm_arr = norm_arr,
                    writes = [(Density, 0), (Norm, 0)]\<rparr>, psi)))))"

subsection \<open>Time evolution (lines 94-108)\<close>

text \<open>The body of the inner loop on \<open>(t_current, psi)\<close>.\<close>

definition inner_step :: "globals \<Rightarrow> nat \<Rightarrow> real \<times> complex list \<Rightarrow> error + (real \<times> complex list)" where
  "inner_step g na s =
     (case s of (t_current, psi) \<Rightarrow>
        let t_current = t_current + dt g
        in
        bnd (Top g psi (dt g)) (\<lambda>psi.
        bnd (Vop g psi (x g) t_current (dt g)) (\<lambda>psi.
        Inr (t_current, psi))))"

text \<open>The body of the outer loop on the diagnostic arrays and \<open>psi\<close>.\<close>

definition outer_step :: "globals \<Rightarrow> nat \<Rightarrow> diag \<times> complex list \<Rightarrow> error + (diag \<times> complex list)" where
  "outer_step g nt s =
     (case s of (d, psi) \<Rightarrow>
        bnd (Top g psi (- dt g / 2)) (\<lambda>psi.
        bnd (get_item (time_arr d) nt) (\<lambda>t_current.
        bnd (for_loop [0..<f g] (inner_step g) (t_current, psi)) (\<lambda>(t_current, psi).
        bnd (Top g psi (dt g / 2)) (\<lambda>psi.
        bnd (set_item (norm_arr d) (nt + 1) (sum_list (abs2 psi) * dx g)) (\<lambda>norm_arr'.
        bnd (set_row (density_prob d) (nt + 1) (abs2 psi)) (\<lambda>density_prob'.
        bnd (set_item (time_arr d) (nt + 1) t_current) (\<lambda>time_arr'.
        Inr (\<lparr>density_prob = density_prob', time_arr = time_arr', norm_arr = norm_arr',
               writes = writes d @ [(Norm, nt + 1), (Density, nt + 1), (Time, nt + 1)]\<rparr>,
             psi)))))))))"

text \<open>
  \<^verbatim>\<open>runsplit\<close> reads \<^verbatim>\<open>norm_arr[0]\<close> and \<^verbatim>\<open>norm_arr[-1]\<close> for its two prints;
  \<^verbatim>\<open>Nt // f\<close> raises for \<open>f = 0\<close>.
\<close>

definition runsplit :: "globals \<Rightarrow> diag \<Rightarrow> complex list \<Rightarrow> error + (diag \<times> complex list)" where
  "runsplit g d psi =
     bnd (get_item (norm_arr d) 0) (\<lambda>_.
     if f g = 0 then Inl ZeroDivisionError
     else
     bnd (for_loop [0..<Nt g div f g] (outer_step g) (d, psi)) (\<lambda>(d, psi).
     bnd (get_last (norm_arr d)) (\<lambda>_.
     Inr (d, psi))))"

text \<open>
  The script up to the call of \<^verbatim>\<open>show\<close> (lines 165-186). \<^verbatim>\<open>np.fft.fft\<close> takes
  the array of floats that \<^verbatim>\<open>init\<close> returns as an array of complex numbers.
\<close>

definition main :: "error + (diag \<times> complex list)" where
  "main =
     bnd (module_globals (2 / 10) 1000 10000 (1 / 100000) 10 1 1 (1 / 4)) (\<lambda>g.
     bnd (init g) (\<lambda>(d, psi).
     runsplit g d (map complex_of_real psi)))"

subsection \<open>The recorded times in double precision (lines 98-106)\<close>

text \<open>
  The script computes with binary64 numbers, and for the recorded times the
  rounding of each \<^verbatim>\<open>t_current += dt\<close> can be written out. \<open>double_round v\<close> is
  the binary64 number nearest to \<open>v\<close>, ties to the even significand, for \<open>v\<close>
  in the normal range (no overflow, no subnormal numbers): \<open>binade\<close> finds the
  exponent \<open>e\<close> with \<open>2^52 \<le> |v| / 2^e < 2^53\<close>. \<open>time_arr_double dt f k\<close> is
  \<^verbatim>\<open>time_arr[k]\<close> as the loops compute it: \<open>k\<close> outer iterations, each adding
  \<open>dt\<close> to \<open>t_current\<close> \<open>f\<close> times, starting from the time recorded last, and
  the first from \<open>0\<close>.
\<close>

definition round_even :: "real \<Rightarrow> int" where
  "round_even q =
     (let n = \<lfloor>q\<rfloor>; r = q - of_int n
      in if r < 1 / 2 then n else if r > 1 / 2 then n + 1 else if even n then n else n + 1)"

fun binade :: "nat \<Rightarrow> real \<Rightarrow> int \<Rightarrow> int" where
  "binade 0 q e = e"
| "binade (Suc n) q e =
     (if q < 2 ^ 52 then binade n (q * 2) (e - 1)
      else if 2 ^ 53 \<le> q then binade n (q / 2) (e + 1)
      else e)"

definition double_round :: "real \<Rightarrow> real" where
  "double_round v =
     (if v = 0 then 0
      else let e = binade 2200 \<bar>v\<bar> 0
           in sgn v * of_int (round_even (\<bar>v\<bar> / 2 powi e)) * 2 powi e)"

definition double_add :: "real \<Rightarrow> real \<Rightarrow> real" where
  "double_add a b = double_round (a + b)"

definition time_arr_double :: "real \<Rightarrow> nat \<Rightarrow> nat \<Rightarrow> real" where
  "time_arr_double dt' f' k = ((\<lambda>t_current. ((\<lambda>t. double_add t dt') ^^ f') t_current) ^^ k) 0"

subsection \<open>The reference splitting scheme\<close>

text \<open>
  The standard second-order sequence named by the specification: a kinetic
  half step, a full potential step, a kinetic half step, repeated.
\<close>

definition strang_step :: "globals \<Rightarrow> real \<Rightarrow> complex list \<Rightarrow> error + complex list" where
  "strang_step g t psi =
     bnd (Top g psi (dt g / 2)) (\<lambda>psi.
     bnd (Vop g psi (x g) t (dt g)) (\<lambda>psi.
     Top g psi (dt g / 2)))"

fun strang_repeat :: "globals \<Rightarrow> nat \<Rightarrow> real \<Rightarrow> complex list \<Rightarrow> error + complex list" where
  "strang_repeat g 0 t psi = Inr psi"
| "strang_repeat g (Suc n) t psi =
     bnd (strang_step g (t + dt g) psi) (strang_repeat g n (t + dt g))"

subsection \<open>Auxiliary functions of the proofs\<close>

text \<open>
  The value that each operator returns when it returns one, and the exception
  that it raises otherwise, as functions of the length of the wavefunction.
  A factor \<open>exp(-i r \<tau>)\<close> is kept as its rate \<open>- r\<close>.
\<close>

definition kin_rates :: "globals \<Rightarrow> nat \<Rightarrow> real list" where
  "kin_rates g n =
     (case fftfreq (Nx g) (dx g) of
        Inl e \<Rightarrow> replicate n 0
      | Inr freqs \<Rightarrow>
          if length freqs = n
          then map (\<lambda>v. - (hbar g * (v * 2 * pi)\<^sup>2 / (2 * m g))) freqs
          else replicate n 0)"

definition phase_mul :: "real list \<Rightarrow> real \<Rightarrow> complex list \<Rightarrow> complex list" where
  "phase_mul w tau zs = map2 (\<lambda>z a. z * cis (a * tau)) zs w"

definition Top_pure :: "globals \<Rightarrow> real \<Rightarrow> complex list \<Rightarrow> complex list" where
  "Top_pure g tau psi = IDFT (phase_mul (kin_rates g (length psi)) tau (DFT psi))"

definition Top_chk :: "globals \<Rightarrow> nat \<Rightarrow> error option" where
  "Top_chk g n =
     (if n = 0 then Some ValueError
      else if real (Nx g) * dx g = 0 then Some ZeroDivisionError
      else if n \<noteq> Nx g \<and> Nx g \<noteq> 1 then Some ValueError
      else if m g = 0 then Some NotANumber
      else None)"

definition Vfun :: "real \<Rightarrow> real \<Rightarrow> real" where
  "Vfun v0 xi = (if \<bar>xi\<bar> > 7 / 100 then 1000000 else if \<bar>xi\<bar> > 4 / 100 then 0 else v0)"

definition pot_rates :: "globals \<Rightarrow> real list \<Rightarrow> nat \<Rightarrow> real list" where
  "pot_rates g xs n =
     (if length xs = n then map (\<lambda>xi. - (Vfun (V0 g) xi / hbar g)) xs
      else replicate n (- (Vfun (V0 g) (hd xs) / hbar g)))"

definition Vop_pure :: "globals \<Rightarrow> real list \<Rightarrow> real \<Rightarrow> complex list \<Rightarrow> complex list" where
  "Vop_pure g xs tau psi = phase_mul (pot_rates g xs (length psi)) tau psi"

definition Vop_chk :: "globals \<Rightarrow> real list \<Rightarrow> nat \<Rightarrow> error option" where
  "Vop_chk g xs n =
     (if length xs \<noteq> n \<and> length xs \<noteq> 1 then Some ValueError
      else if hbar g = 0 then Some NotANumber
      else None)"

text \<open>
  The inner loop body and the reference sequence on values, and the state
  after \<open>nt\<close> iterations of the outer loop when nothing raises.
\<close>

definition inner_pure :: "globals \<Rightarrow> complex list \<Rightarrow> complex list" where
  "inner_pure g p = Vop_pure g (x g) (dt g) (Top_pure g (dt g) p)"

definition strang_pure :: "globals \<Rightarrow> complex list \<Rightarrow> complex list" where
  "strang_pure g p = Top_pure g (dt g / 2) (Vop_pure g (x g) (dt g) (Top_pure g (dt g / 2) p))"

primrec state_after :: "globals \<Rightarrow> diag \<Rightarrow> complex list \<Rightarrow> nat \<Rightarrow> diag \<times> complex list" where
  "state_after g d0 psi0 0 = (d0, psi0)"
| "state_after g d0 psi0 (Suc nt) =
     (case state_after g d0 psi0 nt of (d, psi) \<Rightarrow>
        let psi' = (strang_pure g ^^ f g) psi
        in (\<lparr>density_prob = (density_prob d)[nt + 1 := abs2 psi'],
              time_arr = (time_arr d)[nt + 1 := time_arr d ! nt + real (f g) * dt g],
              norm_arr = (norm_arr d)[nt + 1 := sum_list (abs2 psi') * dx g],
              writes = writes d @ [(Norm, nt + 1), (Density, nt + 1), (Time, nt + 1)]\<rparr>,
            psi'))"

text \<open>The unnormalised initial profile of line 60.\<close>

definition gauss :: "real \<Rightarrow> real" where
  "gauss xi = exp (- ((xi - 6 / 100)\<^sup>2) / (2 * (5 / 1000)\<^sup>2))"

text \<open>The module-level variables of the script as it is configured.\<close>

definition configured :: globals where
  "configured =
     \<lparr>L = 2 / 10, Nx = 1000, dx = (2 / 10) / 1000, Nt = 10000, dt = 1 / 100000, f = 10,
      x = linspace (- (2 / 10) / 2) ((2 / 10) / 2) 1000, hbar = 1, m = 1, V0 = 1 / 4\<rparr>"

section \<open>Properties\<close>

subsection \<open>The potential\<close>

lemma V_map_scalar: "V xs t v0 = map (\<lambda>xi. V_scalar xi t v0) xs"
  by (induction xs)
     (simp_all add: V_def V_scalar_def empty_like_def mask_assign_def Let_def)

lemma V_scalar_cases:
  "V_scalar xi t v0 =
     Some (if \<bar>xi\<bar> > 7 / 100 then 1000000 else if \<bar>xi\<bar> > 4 / 100 then 0 else v0)"
  by (simp add: V_scalar_def Let_def)

lemma length_V [simp]: "length (V xs t v0) = length xs"
  by (simp add: V_map_scalar)

lemma V_nth:
  "i < length xs \<Longrightarrow>
     V xs t v0 ! i =
       Some (if \<bar>xs ! i\<bar> > 7 / 100 then 1000000 else if \<bar>xs ! i\<bar> > 4 / 100 then 0 else v0)"
  by (simp add: V_map_scalar V_scalar_cases)

text \<open>
  Claim C3. With \<open>b = 0.04\<close>, \<open>a = 0.07\<close>, \<open>V_out = 1e6\<close> and \<open>V0 = 0.25\<close> the
  potential is \<open>V_out\<close> where \<open>|x| > a\<close>, \<open>0\<close> where \<open>b < |x| \<le> a\<close> and \<open>V0\<close> where
  \<open>|x| \<le> b\<close>; in particular \<open>V(0) = 0.25\<close>, \<open>V(0.05) = 0\<close>, \<open>V(0.08) = 1e6\<close>,
  \<open>V(0.04) = 0.25\<close> and \<open>V(0.07) = 0\<close>, so both boundary points belong to the
  lower-potential side; the array form gives at every index what the scalar
  form gives at that position.
\<close>

theorem V_regions:
  "(\<bar>xi\<bar> > 7 / 100 \<longrightarrow> V_scalar xi t (1 / 4) = Some 1000000) \<and>
   (4 / 100 < \<bar>xi\<bar> \<and> \<bar>xi\<bar> \<le> 7 / 100 \<longrightarrow> V_scalar xi t (1 / 4) = Some 0) \<and>
   (\<bar>xi\<bar> \<le> 4 / 100 \<longrightarrow> V_scalar xi t (1 / 4) = Some (1 / 4)) \<and>
   V_scalar 0 t (1 / 4) = Some (1 / 4) \<and>
   V_scalar (5 / 100) t (1 / 4) = Some 0 \<and>
   V_scalar (8 / 100) t (1 / 4) = Some 1000000 \<and>
   V_scalar (4 / 100) t (1 / 4) = Some (1 / 4) \<and>
   V_scalar (7 / 100) t (1 / 4) = Some 0 \<and>
   V xs t (1 / 4) = map (\<lambda>xi. V_scalar xi t (1 / 4)) xs \<and>
   V [0, 5 / 100, 8 / 100, 4 / 100, 7 / 100] t (1 / 4) =
     [Some (1 / 4), Some 0, Some 1000000, Some (1 / 4), Some 0]"
proof -
  have regions:
    "(\<bar>xi\<bar> > 7 / 100 \<longrightarrow> V_scalar xi t (1 / 4) = Some 1000000) \<and>
     (4 / 100 < \<bar>xi\<bar> \<and> \<bar>xi\<bar> \<le> 7 / 100 \<longrightarrow> V_scalar xi t (1 / 4) = Some 0) \<and>
     (\<bar>xi\<bar> \<le> 4 / 100 \<longrightarrow> V_scalar xi t (1 / 4) = Some (1 / 4))"
    by (simp add: V_scalar_cases)
  have points:
    "V_scalar 0 t (1 / 4) = Some (1 / 4) \<and>
     V_scalar (5 / 100) t (1 / 4) = Some 0 \<and>
     V_scalar (8 / 100) t (1 / 4) = Some 1000000 \<and>
     V_scalar (4 / 100) t (1 / 4) = Some (1 / 4) \<and>
     V_scalar (7 / 100) t (1 / 4) = Some 0"
    by (simp add: V_scalar_cases)
  have arr: "V xs t (1 / 4) = map (\<lambda>xi. V_scalar xi t (1 / 4)) xs"
    by (rule V_map_scalar)
  have arr_points:
    "V [0, 5 / 100, 8 / 100, 4 / 100, 7 / 100] t (1 / 4) =
       [Some (1 / 4), Some 0, Some 1000000, Some (1 / 4), Some 0]"
    by (simp add: V_map_scalar V_scalar_cases)
  from regions points arr arr_points show ?thesis by blast
qed

theorem V_regions_witness:
  "\<bar>8 / 100 :: real\<bar> > 7 / 100 \<and> V_scalar (8 / 100) 0 (1 / 4) = Some 1000000 \<and>
   4 / 100 < \<bar>- 5 / 100 :: real\<bar> \<and> \<bar>- 5 / 100 :: real\<bar> \<le> 7 / 100 \<and>
   V_scalar (- 5 / 100) 0 (1 / 4) = Some 0 \<and>
   \<bar>- 4 / 100 :: real\<bar> \<le> 4 / 100 \<and> V_scalar (- 4 / 100) 0 (1 / 4) = Some (1 / 4)"
  using V_regions [of "8 / 100" 0 "[]"] V_regions [of "- 5 / 100" 0 "[]"]
    V_regions [of "- 4 / 100" 0 "[]"]
  by simp

subsection \<open>Roots of unity and the inversion of the transform\<close>

lemma cis_eq_one_small:
  fixes d :: int
  assumes n: "0 < n" and d: "\<bar>d\<bar> < int n" and c: "cis (2 * pi * real_of_int d / real n) = 1"
  shows "d = 0"
proof -
  have "cos (2 * pi * real_of_int d / real n) = 1"
    using c by (simp add: complex_eq_iff)
  then obtain q :: int where q: "2 * pi * real_of_int d / real n = real_of_int q * 2 * pi"
    using cos_one_2pi_int by blast
  have "2 * pi * (real_of_int d / real n) = 2 * pi * real_of_int q"
    using q by (simp add: mult.commute mult.left_commute)
  then have "real_of_int d / real n = real_of_int q"
    using pi_gt_zero by (simp only: mult_cancel_left) auto
  then have "real_of_int d = real_of_int q * real n"
    using n by (simp add: field_simps)
  then have "real_of_int d = real_of_int (q * int n)" by simp
  then have dq: "d = q * int n" using of_int_eq_iff by blast
  show ?thesis
  proof (cases "q = 0")
    case True
    then show ?thesis using dq by simp
  next
    case False
    then have "1 \<le> \<bar>q\<bar>" by simp
    then have "int n \<le> \<bar>q\<bar> * int n" using n by simp
    then have "int n \<le> \<bar>d\<bar>" using dq by (simp add: abs_mult)
    then show ?thesis using d by simp
  qed
qed

lemma root_sum:
  fixes d :: int
  assumes n: "0 < n" and d: "\<bar>d\<bar> < int n"
  shows "(\<Sum>k<n. cis (2 * pi * real_of_int d / real n * real k)) = (if d = 0 then of_nat n else 0)"
proof -
  define w where "w = cis (2 * pi * real_of_int d / real n)"
  have pw: "cis (2 * pi * real_of_int d / real n * real k) = w ^ k" for k
    by (simp add: w_def DeMoivre mult.commute)
  have "w ^ n = cis (2 * pi * real_of_int d)"
    using n by (simp add: w_def DeMoivre)
  then have wn: "w ^ n = 1" by simp
  show ?thesis
  proof (cases "d = 0")
    case True
    then show ?thesis by simp
  next
    case False
    then have "w \<noteq> 1" using cis_eq_one_small [OF n d] by (auto simp: w_def)
    then have "(\<Sum>k<n. w ^ k) = 0" using wn by (simp add: geometric_sum)
    then have "(\<Sum>k<n. cis (2 * pi * real_of_int d / real n * real k)) = 0"
      by (simp only: pw)
    then show ?thesis using False by simp
  qed
qed

lemma dft_inversion:
  fixes s :: int and a :: "nat \<Rightarrow> complex"
  assumes j: "j < n" and s: "s = 1 \<or> s = - 1"
  shows "(\<Sum>k<n. (\<Sum>l<n. a l * cis (- (2 * pi * real_of_int s * real l * real k / real n))) *
            cis (2 * pi * real_of_int s * real j * real k / real n)) = of_nat n * a j"
proof -
  have n: "0 < n" using j by simp
  have tm: "a l * cis (- (2 * pi * real_of_int s * real l * real k / real n)) *
        cis (2 * pi * real_of_int s * real j * real k / real n) =
      a l * cis (2 * pi * real_of_int (s * (int j - int l)) / real n * real k)" for l k
    by (simp add: cis_mult algebra_simps diff_divide_distrib)
  have inner: "(\<Sum>k<n. cis (2 * pi * real_of_int (s * (int j - int l)) / real n * real k)) =
      (if l = j then of_nat n else 0)" if "l < n" for l
  proof -
    have "\<bar>s * (int j - int l)\<bar> < int n"
      using s j that by (auto simp: abs_mult)
    from root_sum [OF n this] show ?thesis
      using s by auto
  qed
  have "(\<Sum>k<n. (\<Sum>l<n. a l * cis (- (2 * pi * real_of_int s * real l * real k / real n))) *
            cis (2 * pi * real_of_int s * real j * real k / real n)) =
        (\<Sum>k<n. \<Sum>l<n. a l * cis (2 * pi * real_of_int (s * (int j - int l)) / real n * real k))"
    by (simp only: sum_distrib_right tm)
  also have "\<dots> = (\<Sum>l<n. \<Sum>k<n. a l * cis (2 * pi * real_of_int (s * (int j - int l)) / real n * real k))"
    by (rule sum.swap)
  also have "\<dots> = (\<Sum>l<n. a l * (\<Sum>k<n. cis (2 * pi * real_of_int (s * (int j - int l)) / real n * real k)))"
    by (simp only: sum_distrib_left)
  also have "\<dots> = (\<Sum>l<n. a l * (if l = j then of_nat n else 0))"
  proof (rule sum.cong [OF refl])
    fix l assume "l \<in> {..<n}"
    then have "l < n" by simp
    from inner [OF this] show "a l * (\<Sum>k<n. cis (2 * pi * real_of_int (s * (int j - int l)) / real n * real k)) =
        a l * (if l = j then of_nat n else 0)"
      by (simp only:)
  qed
  also have "\<dots> = of_nat n * a j"
    using j by (simp add: if_distrib [of "\<lambda>z. a _ * z"] cong: if_cong)
  finally show ?thesis .
qed

lemma dft_inversion_fwd:
  fixes a :: "nat \<Rightarrow> complex"
  assumes "j < n"
  shows "(\<Sum>k<n. (\<Sum>l<n. a l * cis (- (2 * pi * real l * real k / real n))) *
            cis (2 * pi * real j * real k / real n)) = of_nat n * a j"
  using dft_inversion [of j n 1 a] assms by simp

lemma dft_inversion_bwd:
  fixes a :: "nat \<Rightarrow> complex"
  assumes "j < n"
  shows "(\<Sum>k<n. (\<Sum>l<n. a l * cis (2 * pi * real l * real k / real n)) *
            cis (- (2 * pi * real j * real k / real n))) = of_nat n * a j"
  using dft_inversion [of j n "- 1" a] assms by simp

lemma length_DFT [simp]: "length (DFT a) = length a"
  by (simp add: DFT_def Let_def)

lemma length_IDFT [simp]: "length (IDFT a) = length a"
  by (simp add: IDFT_def Let_def)

lemma DFT_nth:
  "k < length a \<Longrightarrow>
     DFT a ! k = (\<Sum>l<length a. a ! l * cis (- (2 * pi * real l * real k / real (length a))))"
  by (simp add: DFT_def Let_def)

lemma IDFT_nth:
  "l < length A \<Longrightarrow>
     IDFT A ! l =
       (\<Sum>k<length A. A ! k * cis (2 * pi * real l * real k / real (length A))) / of_nat (length A)"
  by (simp add: IDFT_def Let_def)

lemma IDFT_DFT [simp]: "IDFT (DFT a) = a"
proof (rule nth_equalityI)
  show "length (IDFT (DFT a)) = length a" by simp
next
  fix j assume "j < length (IDFT (DFT a))"
  then have j: "j < length a" by simp
  have "(\<Sum>k<length a. DFT a ! k * cis (2 * pi * real j * real k / real (length a))) =
        (\<Sum>k<length a. (\<Sum>l<length a. a ! l * cis (- (2 * pi * real l * real k / real (length a)))) *
            cis (2 * pi * real j * real k / real (length a)))"
    by (rule sum.cong) (simp_all add: DFT_nth)
  also have "\<dots> = of_nat (length a) * a ! j"
    by (rule dft_inversion_fwd [OF j])
  finally show "IDFT (DFT a) ! j = a ! j"
    using j by (auto simp add: IDFT_nth)
qed

lemma DFT_IDFT [simp]: "DFT (IDFT A) = A"
proof (rule nth_equalityI)
  show "length (DFT (IDFT A)) = length A" by simp
next
  fix j assume "j < length (DFT (IDFT A))"
  then have j: "j < length A" by simp
  let ?n = "length A"
  have "(\<Sum>l<?n. IDFT A ! l * cis (- (2 * pi * real l * real j / real ?n))) =
        (\<Sum>l<?n. (\<Sum>k<?n. A ! k * cis (2 * pi * real k * real l / real ?n)) *
            cis (- (2 * pi * real j * real l / real ?n))) / of_nat ?n"
    unfolding sum_divide_distrib
    by (rule sum.cong) (simp_all add: IDFT_nth mult.commute mult.left_commute)
  also have "\<dots> = of_nat ?n * A ! j / of_nat ?n"
    by (simp only: dft_inversion_bwd [OF j])
  finally show "DFT (IDFT A) ! j = A ! j"
    using j by (auto simp add: DFT_nth)
qed


lemma sum_list_abs2: "sum_list (abs2 zs) = (\<Sum>k<length zs. (cmod (zs ! k))\<^sup>2)"
proof -
  have "sum_list (abs2 zs) = (\<Sum>k = 0..<length (abs2 zs). abs2 zs ! k)"
    by (rule sum_list_sum_nth)
  also have "\<dots> = (\<Sum>k<length zs. (cmod (zs ! k))\<^sup>2)"
    by (rule sum.cong) (auto simp: abs2_def)
  finally show ?thesis .
qed

lemma IDFT_sum:
  assumes "l < length A"
  shows "(\<Sum>k<length A. A ! k * cis (2 * pi * real l * real k / real (length A))) =
           of_nat (length A) * IDFT A ! l"
  using assms by (auto simp: IDFT_nth)

lemma cnj_DFT_nth:
  assumes "k < length a"
  shows "cnj (DFT a ! k) =
           (\<Sum>j<length a. cnj (a ! j) * cis (2 * pi * real j * real k / real (length a)))"
  using assms by (simp add: DFT_nth cis_cnj)

lemma cmod_sq_cnj: "(complex_of_real (cmod z))\<^sup>2 = z * cnj z"
  by (metis complex_norm_square of_real_power)

lemma parseval_DFT: "sum_list (abs2 (DFT a)) = real (length a) * sum_list (abs2 a)"
proof -
  let ?n = "length a"
  let ?A = "DFT a"
  have "complex_of_real (sum_list (abs2 ?A)) = (\<Sum>k<?n. ?A ! k * cnj (?A ! k))"
    by (simp add: sum_list_abs2 cmod_sq_cnj)
  also have "\<dots> =
      (\<Sum>k<?n. \<Sum>j<?n. cnj (a ! j) * (?A ! k * cis (2 * pi * real j * real k / real ?n)))"
    by (rule sum.cong) (simp_all add: cnj_DFT_nth sum_distrib_left mult.left_commute)
  also have "\<dots> =
      (\<Sum>j<?n. \<Sum>k<?n. cnj (a ! j) * (?A ! k * cis (2 * pi * real j * real k / real ?n)))"
    by (rule sum.swap)
  also have "\<dots> =
      (\<Sum>j<?n. cnj (a ! j) * (\<Sum>k<?n. ?A ! k * cis (2 * pi * real j * real k / real ?n)))"
    by (simp only: sum_distrib_left)
  also have "\<dots> = (\<Sum>j<?n. cnj (a ! j) * (of_nat ?n * a ! j))"
  proof (rule sum.cong [OF refl])
    fix j assume "j \<in> {..<?n}"
    then have "j < length ?A" by simp
    from IDFT_sum [OF this]
    show "cnj (a ! j) * (\<Sum>k<?n. ?A ! k * cis (2 * pi * real j * real k / real ?n)) =
          cnj (a ! j) * (of_nat ?n * a ! j)"
      by simp
  qed
  also have "\<dots> = of_nat ?n * (\<Sum>j<?n. a ! j * cnj (a ! j))"
    by (simp add: sum_distrib_left mult_ac)
  also have "\<dots> = complex_of_real (real ?n * sum_list (abs2 a))"
    by (simp add: sum_list_abs2 cmod_sq_cnj)
  finally show ?thesis
    using of_real_eq_iff by blast
qed

lemma parseval_IDFT: "real (length A) * sum_list (abs2 (IDFT A)) = sum_list (abs2 A)"
  using parseval_DFT [of "IDFT A"] by simp

subsection \<open>The two operators\<close>

lemma bnd_Inr [simp]: "bnd (Inr v) k = k v"
  by (simp add: bnd_def)

lemma bnd_Inl [simp]: "bnd (Inl e) k = Inl e"
  by (simp add: bnd_def)

lemma length_kin_rates [simp]: "length (kin_rates g n) = n"
  by (simp add: kin_rates_def split: sum.splits)

lemma length_phase_mul [simp]: "length w = length zs \<Longrightarrow> length (phase_mul w tau zs) = length zs"
  by (simp add: phase_mul_def)

lemma length_Top_pure [simp]: "length (Top_pure g tau psi) = length psi"
  by (simp add: Top_pure_def)

lemma fftfreq_length: "fftfreq n d = Inr fr \<Longrightarrow> length fr = n \<and> 0 < n"
  by (auto simp: fftfreq_def Let_def split: if_splits)

lemma fftfreq_one: "fftfreq (Suc 0) d = Inr fr \<Longrightarrow> fr = [0]"
  by (auto simp: fftfreq_def Let_def split: if_splits)

lemma Top_eq:
  "Top g psi tau =
     (case Top_chk g (length psi) of Some e \<Rightarrow> Inl e | None \<Rightarrow> Inr (Top_pure g tau psi))"
proof (cases "psi = []")
  case True
  then show ?thesis by (simp add: Top_def fft_def Top_chk_def)
next
  case ne: False
  show ?thesis
  proof (cases "fftfreq (Nx g) (dx g)")
    case (Inl e)
    then have "real (Nx g) * dx g = 0" "e = ZeroDivisionError"
      by (auto simp: fftfreq_def Let_def split: if_splits)
    then show ?thesis using ne Inl by (simp add: Top_def fft_def Top_chk_def)
  next
    case (Inr fr)
    then have nz: "real (Nx g) * dx g \<noteq> 0"
      by (auto simp: fftfreq_def Let_def split: if_splits)
    have len: "length fr = Nx g" "0 < Nx g" using fftfreq_length [OF Inr] by simp_all
    let ?ph = "map (\<lambda>k. exp (- \<i> * of_real (hbar g * k\<^sup>2 * tau) / of_real (2 * m g)))
                 (map (\<lambda>v. v * 2 * pi) fr)"
    have ph: "?ph = map (\<lambda>v. cis (- (hbar g * (v * 2 * pi)\<^sup>2 / (2 * m g)) * tau)) fr"
      by (simp add: cis_conv_exp)
    have top: "Top g psi tau =
        bnd (imul (DFT psi) ?ph) (\<lambda>psi_k. if m g = 0 then Inl NotANumber else ifft psi_k)"
      using ne Inr by (simp add: Top_def fft_def Let_def)
    have dne: "DFT psi \<noteq> []"
      using ne length_DFT [of psi] by (metis length_0_conv)
    have chk_ok: "length psi = Nx g \<or> Nx g = 1 \<Longrightarrow>
        Top_chk g (length psi) = (if m g = 0 then Some NotANumber else None)"
      using ne nz by (auto simp: Top_chk_def)
    show ?thesis
    proof (cases "length psi = Nx g")
      case True
      then have kr: "kin_rates g (length psi) =
          map (\<lambda>v. - (hbar g * (v * 2 * pi)\<^sup>2 / (2 * m g))) fr"
        using Inr len by (simp add: kin_rates_def)
      have im: "imul (DFT psi) ?ph = Inr (phase_mul (kin_rates g (length psi)) tau (DFT psi))"
        unfolding ph kr using True len
        by (simp add: imul_def phase_mul_def zip_map2 split_def)
      have pne: "phase_mul (kin_rates g (length psi)) tau (DFT psi) \<noteq> []"
        using dne length_phase_mul [of "kin_rates g (length psi)" "DFT psi" tau]
        by (metis length_0_conv length_DFT length_kin_rates)
      have "Top g psi tau = (if m g = 0 then Inl NotANumber
          else Inr (IDFT (phase_mul (kin_rates g (length psi)) tau (DFT psi))))"
        unfolding top im using pne by (simp add: ifft_def)
      then show ?thesis
        using chk_ok True by (simp add: Top_pure_def)
    next
      case neq: False
      show ?thesis
      proof (cases "Nx g = 1")
        case True
        then have fr: "fr = [0]" using Inr fftfreq_one by simp
        have kr: "kin_rates g (length psi) = replicate (length psi) 0"
          using Inr len neq by (simp add: kin_rates_def)
        have pm: "phase_mul (replicate (length psi) 0) tau (DFT psi) = DFT psi"
          by (rule nth_equalityI) (simp_all add: phase_mul_def)
        have im: "imul (DFT psi) ?ph = Inr (DFT psi)"
          unfolding ph using neq True by (simp add: imul_def fr)
        have "Top g psi tau = (if m g = 0 then Inl NotANumber else Inr (IDFT (DFT psi)))"
          unfolding top im using dne by (simp add: ifft_def)
        then show ?thesis
          using chk_ok True by (simp add: Top_pure_def kr pm)
      next
        case False
        then have "imul (DFT psi) ?ph = Inl ValueError"
          using neq len by (simp add: imul_def)
        then have "Top g psi tau = Inl ValueError"
          unfolding top by simp
        then show ?thesis
          using False ne nz neq by (simp add: Top_chk_def)
      qed
    qed
  qed
qed

lemma phase_mul_nth:
  "length w = length zs \<Longrightarrow> k < length zs \<Longrightarrow>
     phase_mul w tau zs ! k = zs ! k * cis (w ! k * tau)"
  by (simp add: phase_mul_def)

lemma phase_mul_add:
  assumes "length w = length zs"
  shows "phase_mul w b (phase_mul w a zs) = phase_mul w (a + b) zs"
proof (rule nth_equalityI)
  show "length (phase_mul w b (phase_mul w a zs)) = length (phase_mul w (a + b) zs)"
    using assms by simp
next
  fix k assume "k < length (phase_mul w b (phase_mul w a zs))"
  then have k: "k < length zs" using assms by simp
  show "phase_mul w b (phase_mul w a zs) ! k = phase_mul w (a + b) zs ! k"
    using assms k by (simp add: phase_mul_nth cis_mult ring_distribs)
qed

lemma phase_mul_zero:
  assumes "length w = length zs"
  shows "phase_mul w 0 zs = zs"
  by (rule nth_equalityI) (use assms in \<open>simp_all add: phase_mul_nth\<close>)

lemma abs2_phase_mul:
  assumes "length w = length zs"
  shows "abs2 (phase_mul w tau zs) = abs2 zs"
proof (rule nth_equalityI)
  show "length (abs2 (phase_mul w tau zs)) = length (abs2 zs)"
    using assms by (simp add: abs2_def)
next
  fix k assume "k < length (abs2 (phase_mul w tau zs))"
  then have k: "k < length zs" using assms by (simp add: abs2_def)
  show "abs2 (phase_mul w tau zs) ! k = abs2 zs ! k"
    using assms k by (simp add: abs2_def phase_mul_nth norm_mult)
qed

lemma Top_pure_add: "Top_pure g b (Top_pure g a psi) = Top_pure g (a + b) psi"
  by (simp add: Top_pure_def phase_mul_add)

lemma Top_pure_zero: "Top_pure g 0 psi = psi"
  by (simp add: Top_pure_def phase_mul_zero)

lemma Top_pure_norm: "sum_list (abs2 (Top_pure g tau psi)) = sum_list (abs2 psi)"
proof (cases "psi = []")
  case True
  then show ?thesis by (simp add: Top_pure_def DFT_def IDFT_def phase_mul_def)
next
  case False
  let ?Z = "phase_mul (kin_rates g (length psi)) tau (DFT psi)"
  have "real (length psi) * sum_list (abs2 (IDFT ?Z)) = sum_list (abs2 ?Z)"
    using parseval_IDFT [of ?Z] by simp
  also have "\<dots> = sum_list (abs2 (DFT psi))"
    by (simp add: abs2_phase_mul)
  also have "\<dots> = real (length psi) * sum_list (abs2 psi)"
    by (rule parseval_DFT)
  finally show ?thesis
    using False by (simp add: Top_pure_def)
qed

lemma those_map_Some: "those (map (\<lambda>v. Some (h v)) vs) = Some (map h vs)"
  by (induction vs) simp_all

lemma those_V: "those (V xs t v0) = Some (map (Vfun v0) xs)"
  by (simp add: V_map_scalar V_scalar_cases Vfun_def those_map_Some)

lemma length_pot_rates [simp]: "length (pot_rates g xs n) = n"
  by (simp add: pot_rates_def)

lemma length_Vop_pure [simp]: "length (Vop_pure g xs tau psi) = length psi"
  by (simp add: Vop_pure_def)

lemma potential_factor:
  "exp (- (\<i> * complex_of_real v * complex_of_real tau / complex_of_real h)) =
     cis (- (v * tau / h))"
  by (simp add: cis_conv_exp mult.assoc)

lemma Vop_eq:
  "Vop g psi xs t tau =
     (case Vop_chk g xs (length psi) of Some e \<Rightarrow> Inl e | None \<Rightarrow> Inr (Vop_pure g xs tau psi))"
proof -
  let ?ph = "map (\<lambda>v. exp (- \<i> * of_real v * of_real tau / of_real (hbar g)))
               (map (Vfun (V0 g)) xs)"
  have ph: "?ph = map (\<lambda>xi. cis (- (Vfun (V0 g) xi / hbar g) * tau)) xs"
    by (simp add: potential_factor)
  have vop: "Vop g psi xs t tau =
      bnd (imul psi ?ph) (\<lambda>psi. if hbar g = 0 then Inl NotANumber else Inr psi)"
    by (simp add: Vop_def those_V)
  show ?thesis
  proof (cases "length xs = length psi")
    case True
    have "imul psi ?ph = Inr (Vop_pure g xs tau psi)"
      unfolding ph using True
      by (simp add: imul_def Vop_pure_def phase_mul_def pot_rates_def zip_map2 split_def)
    then show ?thesis
      unfolding vop using True by (simp add: Vop_chk_def)
  next
    case neq: False
    show ?thesis
    proof (cases "length xs = 1")
      case True
      then obtain xi where xs: "xs = [xi]"
        by (cases xs) simp_all
      have "imul psi ?ph = Inr (Vop_pure g xs tau psi)"
        unfolding ph using neq
        by (auto simp: xs imul_def Vop_pure_def phase_mul_def pot_rates_def
              intro!: nth_equalityI)
      then show ?thesis
        unfolding vop using True neq by (simp add: Vop_chk_def)
    next
      case False
      then have "imul psi ?ph = Inl ValueError"
        using neq by (simp add: imul_def)
      then show ?thesis
        unfolding vop using False neq by (simp add: Vop_chk_def)
    qed
  qed
qed

lemma Vop_pure_zero: "Vop_pure g xs 0 psi = psi"
  by (simp add: Vop_pure_def phase_mul_zero)

lemma Vop_pure_norm: "abs2 (Vop_pure g xs tau psi) = abs2 psi"
  by (simp add: Vop_pure_def abs2_phase_mul)

lemma Top_chk_None:
  "Top_chk g (length psi) = None \<longleftrightarrow>
     psi \<noteq> [] \<and> (length psi = Nx g \<or> Nx g = 1) \<and> real (Nx g) * dx g \<noteq> 0 \<and> m g \<noteq> 0"
  by (auto simp: Top_chk_def)

lemma Top_ok:
  assumes "psi \<noteq> []" "length psi = Nx g \<or> Nx g = 1" "real (Nx g) * dx g \<noteq> 0" "m g \<noteq> 0"
  shows "Top g psi tau = Inr (Top_pure g tau psi)"
proof -
  have "Top_chk g (length psi) = None"
    using assms by (simp add: Top_chk_None)
  then show ?thesis by (simp add: Top_eq)
qed

lemma Top_returns_iff:
  "(\<exists>r. Top g psi tau = Inr r) \<longleftrightarrow>
     psi \<noteq> [] \<and> (length psi = Nx g \<or> Nx g = 1) \<and> real (Nx g) * dx g \<noteq> 0 \<and> m g \<noteq> 0"
  unfolding Top_chk_None [symmetric] by (simp add: Top_eq split: option.splits)

lemma Top_bnd_Top: "bnd (Top g psi a) (\<lambda>r. Top g r b) = Top g psi (a + b)"
  by (simp add: Top_eq Top_pure_add split: option.splits)

lemma Vop_chk_None:
  "Vop_chk g xs (length psi) = None \<longleftrightarrow>
     (length xs = length psi \<or> length xs = 1) \<and> hbar g \<noteq> 0"
  by (auto simp: Vop_chk_def)

lemma Vop_ok:
  assumes "length xs = length psi \<or> length xs = 1" "hbar g \<noteq> 0"
  shows "Vop g psi xs t tau = Inr (Vop_pure g xs tau psi)"
proof -
  have "Vop_chk g xs (length psi) = None"
    using assms by (simp add: Vop_chk_None)
  then show ?thesis by (simp add: Vop_eq)
qed

lemma Vop_returns_iff:
  "(\<exists>r. Vop g psi xs t tau = Inr r) \<longleftrightarrow>
     (length xs = length psi \<or> length xs = 1) \<and> hbar g \<noteq> 0"
  unfolding Vop_chk_None [symmetric] by (simp add: Vop_eq split: option.splits)

text \<open>
  Claim C10. Two kinetic steps compose additively: \<open>Top(Top(psi, a), b)\<close> is
  \<open>Top(psi, a + b)\<close> for all real \<open>a\<close> and \<open>b\<close>, with the same exception when the
  first call raises; on a non-empty wavefunction of the length of the grid,
  with \<open>Nx * dx\<close> and \<open>m\<close> not zero, all three calls return.
\<close>

theorem Top_additive:
  "bnd (Top g psi a) (\<lambda>r. Top g r b) = Top g psi (a + b) \<and>
   (psi \<noteq> [] \<and> (length psi = Nx g \<or> Nx g = 1) \<and> real (Nx g) * dx g \<noteq> 0 \<and> m g \<noteq> 0 \<longrightarrow>
      (\<exists>r s. Top g psi a = Inr r \<and> Top g r b = Inr s \<and> Top g psi (a + b) = Inr s))"
proof (intro conjI impI)
  show "bnd (Top g psi a) (\<lambda>r. Top g r b) = Top g psi (a + b)"
    by (rule Top_bnd_Top)
next
  assume ok: "psi \<noteq> [] \<and> (length psi = Nx g \<or> Nx g = 1) \<and> real (Nx g) * dx g \<noteq> 0 \<and> m g \<noteq> 0"
  then have 1: "Top g psi a = Inr (Top_pure g a psi)"
    and 2: "Top g psi (a + b) = Inr (Top_pure g (a + b) psi)"
    by (simp_all add: Top_ok)
  have "Top g (Top_pure g a psi) b = Top g psi (a + b)"
    using Top_bnd_Top [of g psi a b] by (simp add: 1)
  with 1 2 show "\<exists>r s. Top g psi a = Inr r \<and> Top g r b = Inr s \<and> Top g psi (a + b) = Inr s"
    by simp
qed

theorem Top_additive_witness:
  "replicate 1000 (1 :: complex) \<noteq> [] \<and> length (replicate 1000 (1 :: complex)) = Nx configured \<and>
   real (Nx configured) * dx configured \<noteq> 0 \<and> m configured \<noteq> 0 \<and>
   (\<exists>r s. Top configured (replicate 1000 1) (1 / 2) = Inr r \<and> Top configured r (- 1 / 3) = Inr s \<and>
      Top configured (replicate 1000 1) (1 / 2 + - 1 / 3) = Inr s)"
  using Top_additive [of configured "replicate 1000 1" "1 / 2" "- 1 / 3"]
  by (simp add: configured_def)

text \<open>
  Claim C7. A kinetic step of any real duration \<open>\<tau>\<close> followed by one of
  duration \<open>- \<tau>\<close> returns the wavefunction it started from.
\<close>

theorem Top_round_trip:
  "psi \<noteq> [] \<and> (length psi = Nx g \<or> Nx g = 1) \<and> real (Nx g) * dx g \<noteq> 0 \<and> m g \<noteq> 0 \<longrightarrow>
     (\<exists>r. Top g psi tau = Inr r \<and> Top g r (- tau) = Inr psi)"
proof
  assume ok: "psi \<noteq> [] \<and> (length psi = Nx g \<or> Nx g = 1) \<and> real (Nx g) * dx g \<noteq> 0 \<and> m g \<noteq> 0"
  then have 1: "Top g psi tau = Inr (Top_pure g tau psi)"
    by (simp add: Top_ok)
  have "Top g (Top_pure g tau psi) (- tau) = Top g psi (tau + - tau)"
    using Top_bnd_Top [of g psi tau "- tau"] by (simp add: 1)
  also have "\<dots> = Inr psi"
    using ok by (simp add: Top_ok Top_pure_zero)
  finally show "\<exists>r. Top g psi tau = Inr r \<and> Top g r (- tau) = Inr psi"
    using 1 by simp
qed

theorem Top_round_trip_witness:
  "replicate 1000 \<i> \<noteq> [] \<and> length (replicate 1000 \<i>) = Nx configured \<and>
   real (Nx configured) * dx configured \<noteq> 0 \<and> m configured \<noteq> 0 \<and>
   (\<exists>r. Top configured (replicate 1000 \<i>) (- 1 / 200000) = Inr r \<and>
        Top configured r (- (- 1 / 200000)) = Inr (replicate 1000 \<i>))"
  using Top_round_trip [of "replicate 1000 \<i>" configured "- 1 / 200000"]
  by (simp add: configured_def)

text \<open>
  Claim C8. A kinetic step of duration zero returns the wavefunction
  unchanged, and so does a potential step of duration zero, for every grid of
  the length of the wavefunction and every reference time.
\<close>

theorem zero_duration:
  "(psi \<noteq> [] \<and> (length psi = Nx g \<or> Nx g = 1) \<and> real (Nx g) * dx g \<noteq> 0 \<and> m g \<noteq> 0 \<longrightarrow>
      Top g psi 0 = Inr psi) \<and>
   ((length xs = length psi \<or> length xs = 1) \<and> hbar g \<noteq> 0 \<longrightarrow> Vop g psi xs t 0 = Inr psi)"
  by (simp add: Top_ok Top_pure_zero Vop_ok Vop_pure_zero)

theorem zero_duration_witness:
  "replicate 1000 (2 + \<i>) \<noteq> [] \<and> length (replicate 1000 (2 + \<i>)) = Nx configured \<and>
   real (Nx configured) * dx configured \<noteq> 0 \<and> m configured \<noteq> 0 \<and>
   Top configured (replicate 1000 (2 + \<i>)) 0 = Inr (replicate 1000 (2 + \<i>)) \<and>
   length (replicate 1000 (5 / 100 :: real)) = length (replicate 1000 (2 + \<i>)) \<and>
   hbar configured \<noteq> 0 \<and>
   Vop configured (replicate 1000 (2 + \<i>)) (replicate 1000 (5 / 100)) 7 0 =
     Inr (replicate 1000 (2 + \<i>))"
  using zero_duration [of "replicate 1000 (2 + \<i>)" configured "replicate 1000 (5 / 100)" 7]
  by (simp add: configured_def)

subsection \<open>The grid and the initial state\<close>

lemma length_linspace [simp]: "length (linspace a b n) = n"
  by (simp add: linspace_def Let_def)

lemma linspace_nth:
  assumes "i < n" "1 < n"
  shows "linspace a b n ! i = a + real i * ((b - a) / real (n - 1))"
proof (cases "i = n - 1")
  case True
  have "a + real (n - 1) * ((b - a) / real (n - 1)) = b"
    using assms by simp
  then show ?thesis
    using assms True by (simp add: linspace_def Let_def)
next
  case False
  then show ?thesis
    using assms by (simp add: linspace_def Let_def add.commute)
qed

lemma module_globals_configured:
  "module_globals (2 / 10) 1000 10000 (1 / 100000) 10 1 1 (1 / 4) = Inr configured"
  by (simp add: module_globals_def configured_def)

lemma x_configured_nth:
  "i < 1000 \<Longrightarrow> x configured ! i = - (1 / 10) + real i * (2 / 9990)"
  by (simp add: configured_def linspace_nth)

text \<open>
  Claim C5. The grid of the script has \<open>Nx\<close> points from \<open>- L / 2\<close> to \<open>L / 2\<close>,
  both included, so consecutive points are \<open>L / (Nx - 1)\<close> apart
  (\<open>grid_structure\<close>), while \<open>dx\<close> is \<open>L / Nx\<close>. For the configured constants the
  spacing is \<open>0.2 / 999\<close> and \<open>dx\<close> is \<open>0.2 / 1000\<close>.
\<close>

theorem grid_spacing_configured:
  "module_globals (2 / 10) 1000 10000 (1 / 100000) 10 1 1 (1 / 4) = Inr configured \<and>
   length (x configured) = Nx configured \<and>
   x configured ! 0 = - (1 / 10) \<and>
   x configured ! 999 = 1 / 10 \<and>
   x configured ! 1 - x configured ! 0 = 2 / 9990 \<and>
   dx configured = 2 / 10000 \<and>
   x configured ! 1 - x configured ! 0 \<noteq> dx configured"
proof -
  have "length (x configured) = Nx configured"
    by (simp add: configured_def)
  moreover have "dx configured = 2 / 10000"
    by (simp add: configured_def)
  moreover have "x configured ! 0 = - (1 / 10)" "x configured ! 999 = 1 / 10"
    "x configured ! 1 - x configured ! 0 = 2 / 9990"
    by (simp_all add: x_configured_nth)
  ultimately show ?thesis
    using module_globals_configured by simp
qed

lemma linspace_diff:
  assumes "i + 1 < n"
  shows "linspace a b n ! (i + 1) - linspace a b n ! i = (b - a) / real (n - 1)"
proof -
  define h where "h = (b - a) / real (n - 1)"
  have "linspace a b n ! (i + 1) = a + real (i + 1) * h" "linspace a b n ! i = a + real i * h"
    using assms by (simp_all add: linspace_nth h_def)
  then have "linspace a b n ! (i + 1) - linspace a b n ! i = h"
    by (simp add: algebra_simps)
  then show ?thesis
    by (simp only: h_def)
qed

lemma linspace_mirror:
  assumes "i < n" "1 < n"
  shows "linspace (- c) c n ! (n - 1 - i) = - (linspace (- c) c n ! i)"
proof -
  define h where "h = (c - - c) / real (n - 1)"
  have "real (n - 1) * h = 2 * c"
    using assms by (simp add: h_def)
  moreover have "real (n - 1 - i) = real (n - 1) - real i"
    using assms by simp
  ultimately have "real (n - 1 - i) * h = 2 * c - real i * h"
    by (simp only: left_diff_distrib)
  moreover have "linspace (- c) c n ! (n - 1 - i) = - c + real (n - 1 - i) * h"
    "linspace (- c) c n ! i = - c + real i * h"
    using assms by (simp_all add: linspace_nth h_def)
  ultimately show ?thesis
    by simp
qed

lemma grid_structure:
  assumes "module_globals L' Nx' Nt' dt' f' hbar' m' V0' = Inr g" "1 < Nx'"
  shows "length (x g) = Nx'"
    and "i + 1 < Nx' \<Longrightarrow> x g ! (i + 1) - x g ! i = L' / real (Nx' - 1)"
    and "i < Nx' \<Longrightarrow> x g ! (Nx' - 1 - i) = - (x g ! i)"
    and "dx g = L' / real Nx'"
proof -
  have g: "x g = linspace (- (L' / 2)) (L' / 2) Nx'" "dx g = L' / real Nx'"
    using assms by (auto simp: module_globals_def split: if_splits)
  show "length (x g) = Nx'" by (simp add: g)
  show "dx g = L' / real Nx'" by (simp add: g)
  show "x g ! (i + 1) - x g ! i = L' / real (Nx' - 1)" if "i + 1 < Nx'"
    unfolding g using linspace_diff [OF that, of "- (L' / 2)" "L' / 2"] by simp
  show "x g ! (Nx' - 1 - i) = - (x g ! i)" if "i < Nx'"
    unfolding g using that assms(2) by (rule linspace_mirror)
qed

lemma sum_list_sq_div:
  fixes c :: real
  shows "(\<Sum>v\<leftarrow>vs. (h v / c)\<^sup>2) = (\<Sum>v\<leftarrow>vs. (h v)\<^sup>2) / c\<^sup>2"
  by (induction vs) (simp_all add: power_divide add_divide_distrib)

lemma sum_list_sq_pos:
  assumes "vs \<noteq> []" "\<And>v. v \<in> set vs \<Longrightarrow> v \<noteq> 0"
  shows "0 < sum_list (map (\<lambda>v. \<bar>v :: real\<bar>\<^sup>2) vs)"
  using assms
proof (induction vs)
  case Nil
  then show ?case by simp
next
  case (Cons v vs)
  have "0 < v\<^sup>2" using Cons.prems(2) [of v] by simp
  moreover have "0 \<le> sum_list (map (\<lambda>v. \<bar>v\<bar>\<^sup>2) vs)"
    by (rule sum_list_nonneg) auto
  ultimately have "0 < v\<^sup>2 + sum_list (map (\<lambda>v. \<bar>v\<bar>\<^sup>2) vs)"
    by (rule add_pos_nonneg)
  then show ?case by simp
qed

lemma abs2_of_real: "abs2 (map complex_of_real vs) = map (\<lambda>v. \<bar>v\<bar>\<^sup>2) vs"
  by (simp add: abs2_def)

lemma init_ok:
  assumes xne: "x g \<noteq> []" and dxp: "0 < dx g" and fp: "0 < f g" and len: "length (x g) = Nx g"
  defines "s0 \<equiv> sum_list (map (\<lambda>xi. (gauss xi)\<^sup>2) (x g)) * dx g"
  defines "psi0 \<equiv> map (\<lambda>xi. gauss xi / sqrt s0) (x g)"
  defines "M \<equiv> Nt g div f g + 1"
  shows "init g =
           Inr (\<lparr>density_prob = (replicate M (replicate (Nx g) 0))[0 := map (\<lambda>v. \<bar>v\<bar>\<^sup>2) psi0],
                 time_arr = replicate M 0,
                 norm_arr = (replicate M 0)[0 := 1],
                 writes = [(Density, 0), (Norm, 0)]\<rparr>, psi0)"
    and "sum_list (map (\<lambda>v. \<bar>v\<bar>\<^sup>2) psi0) * dx g = 1"
    and "0 < s0"
proof -
  let ?G = "map (\<lambda>xi. exp (- ((xi - 6 / 100)\<^sup>2) / (2 * (5 / 1000)\<^sup>2))) (x g)"
  have G: "?G = map gauss (x g)"
    by (simp add: gauss_def)
  have s0: "sum_list (map (\<lambda>v. \<bar>v\<bar>\<^sup>2) ?G) * dx g = s0"
    unfolding G s0_def by (simp add: comp_def)
  have "0 < sum_list (map (\<lambda>v. \<bar>v\<bar>\<^sup>2) (map gauss (x g)))"
    by (rule sum_list_sq_pos) (use xne in \<open>auto simp: gauss_def\<close>)
  then have "0 < sum_list (map (\<lambda>v. \<bar>v\<bar>\<^sup>2) (map gauss (x g))) * dx g"
    using dxp by (rule mult_pos_pos)
  then show pos: "0 < s0"
    unfolding s0 [symmetric] G .
  have psi0: "map (\<lambda>v. v / sqrt s0) ?G = psi0"
    unfolding G psi0_def by (simp add: comp_def)
  have "sum_list (map (\<lambda>v. \<bar>v\<bar>\<^sup>2) psi0) = sum_list (map (\<lambda>v. \<bar>v\<bar>\<^sup>2) ?G) / (sqrt s0)\<^sup>2"
    unfolding psi0 [symmetric] by (simp add: comp_def sum_list_sq_div)
  then have "sum_list (map (\<lambda>v. \<bar>v\<bar>\<^sup>2) psi0) * dx g = s0 / (sqrt s0)\<^sup>2"
    using s0 by (simp add: field_simps)
  then show one: "sum_list (map (\<lambda>v. \<bar>v\<bar>\<^sup>2) psi0) * dx g = 1"
    using pos by simp
  have lp: "length psi0 = Nx g"
    using len by (simp add: psi0_def)
  have row: "set_row (replicate M (replicate (Nx g) 0)) 0 (map (\<lambda>v. \<bar>v\<bar>\<^sup>2) psi0) =
      Inr ((replicate M (replicate (Nx g) 0))[0 := map (\<lambda>v. \<bar>v\<bar>\<^sup>2) psi0])"
    using lp by (simp add: set_row_def M_def)
  have item: "set_item (replicate M 0) 0 (1 :: real) = Inr ((replicate M 0)[0 := 1])"
    by (simp add: set_item_def M_def)
  show "init g =
           Inr (\<lparr>density_prob = (replicate M (replicate (Nx g) 0))[0 := map (\<lambda>v. \<bar>v\<bar>\<^sup>2) psi0],
                 time_arr = replicate M 0,
                 norm_arr = (replicate M 0)[0 := 1],
                 writes = [(Density, 0), (Norm, 0)]\<rparr>, psi0)"
    unfolding init_def Let_def s0 psi0 one M_def [symmetric]
    using fp pos row item by simp
qed

lemma x_configured_ne: "x configured \<noteq> []"
proof -
  have "length (x configured) = 1000" by (simp add: configured_def)
  then show ?thesis by auto
qed

text \<open>
  Claim C4. On a non-empty grid of \<open>Nx\<close> points, with \<open>dx > 0\<close> and \<open>f > 0\<close>,
  \<open>init\<close> returns the Gaussian centred at \<open>0.06\<close> of width \<open>0.005\<close> divided by
  \<open>sqrt(sum(|psi|^2) * dx)\<close>, whose discrete norm is exactly \<open>1\<close>, and three
  arrays of \<open>Nt // f + 1\<close> slots whose slots \<open>0\<close> hold the initial density, the
  initial norm and the time \<open>0\<close>.
\<close>

theorem init_postcondition:
  "x g \<noteq> [] \<and> length (x g) = Nx g \<and> 0 < dx g \<and> 0 < f g \<longrightarrow>
     (\<exists>d psi. init g = Inr (d, psi) \<and>
        psi = map (\<lambda>xi. exp (- ((xi - 6 / 100)\<^sup>2) / (2 * (5 / 1000)\<^sup>2)) /
                       sqrt (sum_list (map (\<lambda>xi. \<bar>exp (- ((xi - 6 / 100)\<^sup>2) / (2 * (5 / 1000)\<^sup>2))\<bar>\<^sup>2)
                                        (x g)) * dx g))
                  (x g) \<and>
        sum_list (map (\<lambda>v. \<bar>v\<bar>\<^sup>2) psi) * dx g = 1 \<and>
        discrete_norm g (map complex_of_real psi) = 1 \<and>
        length (density_prob d) = Nt g div f g + 1 \<and>
        length (time_arr d) = Nt g div f g + 1 \<and>
        length (norm_arr d) = Nt g div f g + 1 \<and>
        density_prob d ! 0 = map (\<lambda>v. \<bar>v\<bar>\<^sup>2) psi \<and>
        norm_arr d ! 0 = sum_list (map (\<lambda>v. \<bar>v\<bar>\<^sup>2) psi) * dx g \<and>
        time_arr d ! 0 = 0)"
proof
  assume a: "x g \<noteq> [] \<and> length (x g) = Nx g \<and> 0 < dx g \<and> 0 < f g"
  define s0 where "s0 = sum_list (map (\<lambda>xi. (gauss xi)\<^sup>2) (x g)) * dx g"
  define psi0 where "psi0 = map (\<lambda>xi. gauss xi / sqrt s0) (x g)"
  define M where "M = Nt g div f g + 1"
  define d0 where "d0 =
    \<lparr>density_prob = (replicate M (replicate (Nx g) 0))[0 := map (\<lambda>v. \<bar>v\<bar>\<^sup>2) psi0],
     time_arr = replicate M 0, norm_arr = (replicate M 0)[0 := 1],
     writes = [(Density, 0), (Norm, 0)]\<rparr>"
  have i: "init g = Inr (d0, psi0)"
    and one: "sum_list (map (\<lambda>v. \<bar>v\<bar>\<^sup>2) psi0) * dx g = 1"
    using a init_ok [of g] by (simp_all add: d0_def psi0_def s0_def M_def)
  have M: "0 < M" by (simp add: M_def)
  have "psi0 = map (\<lambda>xi. exp (- ((xi - 6 / 100)\<^sup>2) / (2 * (5 / 1000)\<^sup>2)) /
                       sqrt (sum_list (map (\<lambda>xi. \<bar>exp (- ((xi - 6 / 100)\<^sup>2) / (2 * (5 / 1000)\<^sup>2))\<bar>\<^sup>2)
                                        (x g)) * dx g))
                  (x g)"
    by (simp add: psi0_def s0_def gauss_def)
  moreover have "discrete_norm g (map complex_of_real psi0) = 1"
    using one by (simp add: discrete_norm_def abs2_of_real)
  moreover have "length (density_prob d0) = Nt g div f g + 1"
    "length (time_arr d0) = Nt g div f g + 1" "length (norm_arr d0) = Nt g div f g + 1"
    by (simp_all add: d0_def M_def)
  moreover have "density_prob d0 ! 0 = map (\<lambda>v. \<bar>v\<bar>\<^sup>2) psi0"
    "norm_arr d0 ! 0 = sum_list (map (\<lambda>v. \<bar>v\<bar>\<^sup>2) psi0) * dx g" "time_arr d0 ! 0 = 0"
    using M one by (simp_all add: d0_def)
  ultimately show "\<exists>d psi. init g = Inr (d, psi) \<and>
        psi = map (\<lambda>xi. exp (- ((xi - 6 / 100)\<^sup>2) / (2 * (5 / 1000)\<^sup>2)) /
                       sqrt (sum_list (map (\<lambda>xi. \<bar>exp (- ((xi - 6 / 100)\<^sup>2) / (2 * (5 / 1000)\<^sup>2))\<bar>\<^sup>2)
                                        (x g)) * dx g))
                  (x g) \<and>
        sum_list (map (\<lambda>v. \<bar>v\<bar>\<^sup>2) psi) * dx g = 1 \<and>
        discrete_norm g (map complex_of_real psi) = 1 \<and>
        length (density_prob d) = Nt g div f g + 1 \<and>
        length (time_arr d) = Nt g div f g + 1 \<and>
        length (norm_arr d) = Nt g div f g + 1 \<and>
        density_prob d ! 0 = map (\<lambda>v. \<bar>v\<bar>\<^sup>2) psi \<and>
        norm_arr d ! 0 = sum_list (map (\<lambda>v. \<bar>v\<bar>\<^sup>2) psi) * dx g \<and>
        time_arr d ! 0 = 0"
    using i one by blast
qed

theorem init_postcondition_witness:
  "x configured \<noteq> [] \<and> length (x configured) = Nx configured \<and> 0 < dx configured \<and>
   0 < f configured \<and>
   (\<exists>d psi. init configured = Inr (d, psi) \<and>
      sum_list (map (\<lambda>v. \<bar>v\<bar>\<^sup>2) psi) * dx configured = 1 \<and>
      length (density_prob d) = 1001 \<and> length (time_arr d) = 1001 \<and> length (norm_arr d) = 1001 \<and>
      density_prob d ! 0 = map (\<lambda>v. \<bar>v\<bar>\<^sup>2) psi \<and> norm_arr d ! 0 = 1 \<and> time_arr d ! 0 = 0)"
proof -
  have h: "x configured \<noteq> [] \<and> length (x configured) = Nx configured \<and> 0 < dx configured \<and>
      0 < f configured"
    using x_configured_ne by (simp add: configured_def)
  have M: "Nt configured div f configured + 1 = 1001"
    by (simp add: configured_def)
  from init_postcondition [of configured] h M show ?thesis
    by (auto simp del: abs_power2 power2_abs)
qed

subsection \<open>The integrator\<close>

lemma length_inner_pure [simp]: "length (inner_pure g p) = length p"
  by (simp add: inner_pure_def)

lemma length_strang_pure [simp]: "length (strang_pure g p) = length p"
  by (simp add: strang_pure_def)

lemma length_funpow_inner [simp]: "length ((inner_pure g ^^ k) p) = length p"
  by (induction k) simp_all

lemma length_funpow_strang [simp]: "length ((strang_pure g ^^ k) p) = length p"
  by (induction k) simp_all

lemma inner_step_ok:
  assumes "Top_chk g (length psi) = None" "Vop_chk g (x g) (length psi) = None"
  shows "inner_step g na (t, psi) = Inr (t + dt g, inner_pure g psi)"
  using assms by (simp add: inner_step_def Top_eq Vop_eq inner_pure_def)

lemma inner_step_err:
  assumes "Top_chk g (length psi) = None" "Vop_chk g (x g) (length psi) = Some e"
  shows "inner_step g na (t, psi) = Inl e"
  using assms by (simp add: inner_step_def Top_eq Vop_eq)

lemma for_loop_inner:
  assumes "Top_chk g (length psi) = None" "Vop_chk g (x g) (length psi) = None"
  shows "for_loop ns (inner_step g) (t, psi) =
           Inr (t + real (length ns) * dt g, (inner_pure g ^^ length ns) psi)"
  using assms
proof (induction ns arbitrary: t psi)
  case Nil
  then show ?case by simp
next
  case (Cons n ns)
  have "for_loop (n # ns) (inner_step g) (t, psi) =
      for_loop ns (inner_step g) (t + dt g, inner_pure g psi)"
    using Cons.prems by (simp add: inner_step_ok)
  also have "\<dots> = Inr (t + dt g + real (length ns) * dt g,
      (inner_pure g ^^ length ns) (inner_pure g psi))"
    using Cons.prems by (intro Cons.IH) simp_all
  finally show ?case
    by (simp add: funpow_swap1 algebra_simps)
qed

lemma for_loop_inner_err:
  assumes "Top_chk g (length psi) = None" "Vop_chk g (x g) (length psi) = Some e" "ns \<noteq> []"
  shows "for_loop ns (inner_step g) (t, psi) = Inl e"
  using assms by (cases ns) (simp_all add: inner_step_err)

lemma strang_step_ok:
  assumes "Top_chk g (length psi) = None" "Vop_chk g (x g) (length psi) = None"
  shows "strang_step g t psi = Inr (strang_pure g psi)"
  using assms by (simp add: strang_step_def Top_eq Vop_eq strang_pure_def)

lemma strang_repeat_ok:
  assumes "Top_chk g (length psi) = None" "Vop_chk g (x g) (length psi) = None"
  shows "strang_repeat g k t psi = Inr ((strang_pure g ^^ k) psi)"
  using assms
proof (induction k arbitrary: t psi)
  case 0
  then show ?case by simp
next
  case (Suc k)
  have "strang_repeat g (Suc k) t psi = strang_repeat g k (t + dt g) (strang_pure g psi)"
    using Suc.prems by (simp add: strang_step_ok)
  also have "\<dots> = Inr ((strang_pure g ^^ k) (strang_pure g psi))"
    using Suc.prems by (intro Suc.IH) simp_all
  finally show ?case
    by (simp add: funpow_swap1)
qed

lemma strang_repeat_Top_err:
  assumes "Top_chk g (length psi) = Some e" "0 < k"
  shows "strang_repeat g k t psi = Inl e"
  using assms by (cases k) (simp_all add: strang_step_def Top_eq)

lemma strang_repeat_Vop_err:
  assumes "Top_chk g (length psi) = None" "Vop_chk g (x g) (length psi) = Some e" "0 < k"
  shows "strang_repeat g k t psi = Inl e"
  using assms by (cases k) (simp_all add: strang_step_def Top_eq Vop_eq)

lemma Top_pure_halves: "Top_pure g (dt g / 2) (Top_pure g (dt g / 2) p) = Top_pure g (dt g) p"
  by (simp add: Top_pure_add)

lemma half_step_commute:
  "Top_pure g (dt g / 2) ((inner_pure g ^^ k) q) = (strang_pure g ^^ k) (Top_pure g (dt g / 2) q)"
proof (induction k)
  case 0
  then show ?case by simp
next
  case (Suc k)
  have "Top_pure g (dt g / 2) ((inner_pure g ^^ Suc k) q) =
      Top_pure g (dt g / 2) (Vop_pure g (x g) (dt g) (Top_pure g (dt g) ((inner_pure g ^^ k) q)))"
    by (simp add: inner_pure_def)
  also have "\<dots> = strang_pure g (Top_pure g (dt g / 2) ((inner_pure g ^^ k) q))"
    by (simp only: strang_pure_def Top_pure_halves)
  also have "\<dots> = strang_pure g ((strang_pure g ^^ k) (Top_pure g (dt g / 2) q))"
    by (simp only: Suc.IH)
  finally show ?case by simp
qed

lemma unwind_inner_close:
  "Top_pure g (dt g / 2) ((inner_pure g ^^ k) (Top_pure g (- (dt g / 2)) psi)) =
     (strang_pure g ^^ k) psi"
proof -
  have "Top_pure g (dt g / 2) (Top_pure g (- (dt g / 2)) psi) = psi"
    by (simp add: Top_pure_add Top_pure_zero)
  then show ?thesis
    by (simp add: half_step_commute)
qed

lemma funpow_strang_norm: "sum_list (abs2 ((strang_pure g ^^ k) psi)) = sum_list (abs2 psi)"
  by (induction k) (simp_all add: strang_pure_def Top_pure_norm Vop_pure_norm)

text \<open>One iteration of the outer loop when nothing raises.\<close>

lemma outer_step_ok:
  assumes top: "Top_chk g (length psi) = None" and vop: "Vop_chk g (x g) (length psi) = None"
    and t: "nt + 1 < length (time_arr d)" and n: "nt + 1 < length (norm_arr d)"
    and r: "nt + 1 < length (density_prob d)"
    and w: "length (density_prob d ! (nt + 1)) = length psi"
  defines "psi' \<equiv> (strang_pure g ^^ f g) psi"
  shows "outer_step g nt (d, psi) =
      Inr (\<lparr>density_prob = (density_prob d)[nt + 1 := abs2 psi'],
             time_arr = (time_arr d)[nt + 1 := time_arr d ! nt + real (f g) * dt g],
             norm_arr = (norm_arr d)[nt + 1 := sum_list (abs2 psi') * dx g],
             writes = writes d @ [(Norm, nt + 1), (Density, nt + 1), (Time, nt + 1)]\<rparr>, psi')"
proof -
  let ?p1 = "Top_pure g (- dt g / 2) psi"
  let ?p2 = "(inner_pure g ^^ f g) ?p1"
  have 1: "Top g psi (- dt g / 2) = Inr ?p1"
    using top by (simp add: Top_eq)
  have 2: "get_item (time_arr d) nt = Inr (time_arr d ! nt)"
    using t by (simp add: get_item_def)
  have 3: "for_loop [0..<f g] (inner_step g) (time_arr d ! nt, ?p1) =
      Inr (time_arr d ! nt + real (f g) * dt g, ?p2)"
    using top vop for_loop_inner [of g ?p1 "[0..<f g]" "time_arr d ! nt"] by simp
  have 4: "Top g ?p2 (dt g / 2) = Inr psi'"
    using top by (simp add: Top_eq psi'_def unwind_inner_close)
  have 5: "set_item (norm_arr d) (nt + 1) (sum_list (abs2 psi') * dx g) =
      Inr ((norm_arr d)[nt + 1 := sum_list (abs2 psi') * dx g])"
    using n by (simp add: set_item_def)
  have 6: "set_row (density_prob d) (nt + 1) (abs2 psi') =
      Inr ((density_prob d)[nt + 1 := abs2 psi'])"
    using r w by (simp add: set_row_def abs2_def psi'_def)
  have 7: "set_item (time_arr d) (nt + 1) (time_arr d ! nt + real (f g) * dt g) =
      Inr ((time_arr d)[nt + 1 := time_arr d ! nt + real (f g) * dt g])"
    using t by (simp add: set_item_def)
  show ?thesis
    unfolding outer_step_def using 1 2 3 4 5 6 7 by simp
qed

lemma for_loop_append:
  "for_loop (ns @ ks) body s = bnd (for_loop ns body s) (for_loop ks body)"
proof (induction ns arbitrary: s)
  case Nil
  then show ?case by simp
next
  case (Cons n ns)
  then show ?case by (cases "body n s") simp_all
qed

lemma state_after_psi:
  "state_after g d0 psi0 nt = (d, psi) \<Longrightarrow>
     length psi = length psi0 \<and> sum_list (abs2 psi) = sum_list (abs2 psi0)"
proof (induction nt arbitrary: d psi)
  case 0
  then show ?case by simp
next
  case (Suc nt)
  obtain d1 psi1 where s1: "state_after g d0 psi0 nt = (d1, psi1)"
    by (cases "state_after g d0 psi0 nt")
  from Suc.prems have "psi = (strang_pure g ^^ f g) psi1"
    by (auto simp: s1 Let_def)
  then show ?case
    using Suc.IH [OF s1] by (simp add: funpow_strang_norm)
qed

lemma state_after_lengths:
  "state_after g d0 psi0 nt = (d, psi) \<Longrightarrow>
     length (density_prob d) = length (density_prob d0) \<and>
     length (time_arr d) = length (time_arr d0) \<and>
     length (norm_arr d) = length (norm_arr d0)"
proof (induction nt arbitrary: d psi)
  case 0
  then show ?case by simp
next
  case (Suc nt)
  obtain d1 psi1 where s1: "state_after g d0 psi0 nt = (d1, psi1)"
    by (cases "state_after g d0 psi0 nt")
  show ?case
    using Suc.prems Suc.IH [OF s1] by (auto simp: s1 Let_def)
qed

lemma state_after_rows:
  "state_after g d0 psi0 nt = (d, psi) \<Longrightarrow> nt < r \<Longrightarrow>
     density_prob d ! r = density_prob d0 ! r"
proof (induction nt arbitrary: d psi)
  case 0
  then show ?case by simp
next
  case (Suc nt)
  obtain d1 psi1 where s1: "state_after g d0 psi0 nt = (d1, psi1)"
    by (cases "state_after g d0 psi0 nt")
  have "density_prob d1 ! r = density_prob d0 ! r"
    using Suc.prems by (intro Suc.IH [OF s1]) simp
  then show ?case
    using Suc.prems by (auto simp: s1 Let_def)
qed

lemma state_after_time:
  "state_after g d0 psi0 nt = (d, psi) \<Longrightarrow> nt < length (time_arr d0) \<Longrightarrow> k \<le> nt \<Longrightarrow>
     time_arr d ! k = time_arr d0 ! 0 + real k * real (f g) * dt g"
proof (induction nt arbitrary: d psi k)
  case 0
  then show ?case by simp
next
  case (Suc nt)
  obtain d1 psi1 where s1: "state_after g d0 psi0 nt = (d1, psi1)"
    by (cases "state_after g d0 psi0 nt")
  have len: "length (time_arr d1) = length (time_arr d0)"
    using state_after_lengths [OF s1] by simp
  have ih: "j \<le> nt \<Longrightarrow> time_arr d1 ! j = time_arr d0 ! 0 + real j * real (f g) * dt g" for j
    using Suc.prems by (intro Suc.IH [OF s1]) simp_all
  have d: "time_arr d = (time_arr d1)[Suc nt := time_arr d1 ! nt + real (f g) * dt g]"
    using Suc.prems by (auto simp: s1 Let_def)
  show ?case
  proof (cases "k = Suc nt")
    case True
    then show ?thesis
      using Suc.prems len ih [of nt] by (simp add: d algebra_simps)
  next
    case False
    then show ?thesis
      using Suc.prems ih [of k] by (simp add: d)
  qed
qed

lemma state_after_norm:
  "state_after g d0 psi0 nt = (d, psi) \<Longrightarrow> nt < length (norm_arr d0) \<Longrightarrow>
     norm_arr d ! 0 = norm_arr d0 ! 0 \<and>
     (1 \<le> k \<and> k \<le> nt \<longrightarrow> norm_arr d ! k = sum_list (abs2 psi0) * dx g)"
proof (induction nt arbitrary: d psi k)
  case 0
  then show ?case by simp
next
  case (Suc nt)
  obtain d1 psi1 where s1: "state_after g d0 psi0 nt = (d1, psi1)"
    by (cases "state_after g d0 psi0 nt")
  have len: "length (norm_arr d1) = length (norm_arr d0)"
    using state_after_lengths [OF s1] by simp
  have ih: "norm_arr d1 ! 0 = norm_arr d0 ! 0"
    "1 \<le> j \<and> j \<le> nt \<longrightarrow> norm_arr d1 ! j = sum_list (abs2 psi0) * dx g" for j
    using Suc.prems Suc.IH [OF s1, of j] by simp_all
  have nrm: "sum_list (abs2 ((strang_pure g ^^ f g) psi1)) = sum_list (abs2 psi0)"
    using state_after_psi [OF s1] by (simp add: funpow_strang_norm)
  have d: "norm_arr d = (norm_arr d1)[Suc nt := sum_list (abs2 psi0) * dx g]"
    using Suc.prems nrm by (auto simp: s1 Let_def)
  show ?case
  proof (cases "k = Suc nt")
    case True
    then show ?thesis
      using Suc.prems len ih(1) by (simp add: d)
  next
    case False
    then show ?thesis
      using Suc.prems ih(1) ih(2) [of k] by (simp add: d)
  qed
qed

lemma state_after_writes:
  "state_after g d0 psi0 nt = (d, psi) \<Longrightarrow>
     writes d = writes d0 @ concat (map (\<lambda>k. [(Norm, k), (Density, k), (Time, k)]) [1..<nt + 1])"
proof (induction nt arbitrary: d psi)
  case 0
  then show ?case by simp
next
  case (Suc nt)
  obtain d1 psi1 where s1: "state_after g d0 psi0 nt = (d1, psi1)"
    by (cases "state_after g d0 psi0 nt")
  have "writes d = writes d1 @ [(Norm, nt + 1), (Density, nt + 1), (Time, nt + 1)]"
    using Suc.prems by (auto simp: s1 Let_def)
  then show ?case
    using Suc.IH [OF s1] by simp
qed

lemma outer_loop_ok:
  assumes top: "Top_chk g (length psi0) = None" and vop: "Vop_chk g (x g) (length psi0) = None"
    and t: "nt < length (time_arr d0)" and n: "nt < length (norm_arr d0)"
    and r: "nt < length (density_prob d0)"
    and w: "\<And>k. k < length (density_prob d0) \<Longrightarrow> length (density_prob d0 ! k) = length psi0"
  shows "for_loop [0..<nt] (outer_step g) (d0, psi0) = Inr (state_after g d0 psi0 nt)"
  using t n r
proof (induction nt)
  case 0
  then show ?case by simp
next
  case (Suc nt)
  obtain d1 psi1 where s1: "state_after g d0 psi0 nt = (d1, psi1)"
    by (cases "state_after g d0 psi0 nt")
  have loop: "for_loop [0..<nt] (outer_step g) (d0, psi0) = Inr (d1, psi1)"
    using Suc by (simp add: s1)
  have lp: "length psi1 = length psi0"
    using state_after_psi [OF s1] by simp
  have ls: "length (density_prob d1) = length (density_prob d0)"
    "length (time_arr d1) = length (time_arr d0)" "length (norm_arr d1) = length (norm_arr d0)"
    using state_after_lengths [OF s1] by simp_all
  have row: "length (density_prob d1 ! (nt + 1)) = length psi1"
    using state_after_rows [OF s1, of "nt + 1"] w [of "nt + 1"] Suc.prems lp by simp
  have "outer_step g nt (d1, psi1) = Inr (state_after g d0 psi0 (Suc nt))"
    using outer_step_ok [of g psi1 nt d1] top vop row Suc.prems ls lp
    by (simp add: s1 Let_def)
  then show ?case
    by (simp add: for_loop_append loop)
qed

lemma runsplit_ok:
  assumes top: "Top_chk g (length psi0) = None" and vop: "Vop_chk g (x g) (length psi0) = None"
    and fp: "0 < f g"
    and t: "Nt g div f g < length (time_arr d0)" and n: "Nt g div f g < length (norm_arr d0)"
    and r: "Nt g div f g < length (density_prob d0)"
    and w: "\<And>k. k < length (density_prob d0) \<Longrightarrow> length (density_prob d0 ! k) = length psi0"
  shows "runsplit g d0 psi0 = Inr (state_after g d0 psi0 (Nt g div f g))"
proof -
  obtain d psi where s: "state_after g d0 psi0 (Nt g div f g) = (d, psi)"
    by (cases "state_after g d0 psi0 (Nt g div f g)")
  have loop: "for_loop [0..<Nt g div f g] (outer_step g) (d0, psi0) = Inr (d, psi)"
    using outer_loop_ok [OF top vop t n r w] by (simp add: s)
  have "length (norm_arr d) = length (norm_arr d0)"
    using state_after_lengths [OF s] by simp
  then have "0 < length (norm_arr d)"
    using n by linarith
  then have ne: "norm_arr d \<noteq> []"
    by simp
  have "0 < length (norm_arr d0)"
    using n by linarith
  then have first: "get_item (norm_arr d0) 0 = Inr (norm_arr d0 ! 0)"
    by (simp add: get_item_def)
  show ?thesis
    unfolding runsplit_def using fp first loop ne by (simp add: s get_last_def)
qed

text \<open>The script from \<open>init\<close> to the end of \<open>runsplit\<close> on well-formed variables.\<close>

lemma run_ok:
  assumes xne: "x g \<noteq> []" and len: "length (x g) = Nx g" and dxp: "0 < dx g" and fp: "0 < f g"
    and mm: "m g \<noteq> 0" and hb: "hbar g \<noteq> 0"
  obtains d0 psi0 d psi where
    "init g = Inr (d0, psi0)"
    "runsplit g d0 (map complex_of_real psi0) = Inr (d, psi)"
    "state_after g d0 (map complex_of_real psi0) (Nt g div f g) = (d, psi)"
    "length (density_prob d0) = Nt g div f g + 1"
    "length (time_arr d0) = Nt g div f g + 1"
    "length (norm_arr d0) = Nt g div f g + 1"
    "writes d0 = [(Density, 0), (Norm, 0)]"
    "time_arr d0 ! 0 = 0" "norm_arr d0 ! 0 = 1"
    "sum_list (abs2 (map complex_of_real psi0)) * dx g = 1"
proof -
  define s0 where "s0 = sum_list (map (\<lambda>xi. (gauss xi)\<^sup>2) (x g)) * dx g"
  define psi0 where "psi0 = map (\<lambda>xi. gauss xi / sqrt s0) (x g)"
  define M where "M = Nt g div f g + 1"
  define d0 where "d0 =
    \<lparr>density_prob = (replicate M (replicate (Nx g) 0))[0 := map (\<lambda>v. \<bar>v\<bar>\<^sup>2) psi0],
     time_arr = replicate M 0, norm_arr = (replicate M 0)[0 := 1],
     writes = [(Density, 0), (Norm, 0)]\<rparr>"
  let ?c = "map complex_of_real psi0"
  have i: "init g = Inr (d0, psi0)"
    and one: "sum_list (map (\<lambda>v. \<bar>v\<bar>\<^sup>2) psi0) * dx g = 1"
    using init_ok [OF xne dxp fp len] by (simp_all add: d0_def psi0_def s0_def M_def)
  have lp: "length ?c = Nx g" "?c \<noteq> []"
    using xne len by (simp_all add: psi0_def)
  have "0 < Nx g" using xne len by (metis length_greater_0_conv)
  then have nz: "real (Nx g) * dx g \<noteq> 0" using dxp by simp
  have top: "Top_chk g (length ?c) = None"
    using lp nz mm by (simp add: Top_chk_def)
  have vop: "Vop_chk g (x g) (length ?c) = None"
    using len hb by (simp add: Vop_chk_def psi0_def)
  have sizes: "length (density_prob d0) = M" "length (time_arr d0) = M" "length (norm_arr d0) = M"
    by (simp_all add: d0_def)
  have rows: "length (density_prob d0 ! k) = length ?c" if "k < length (density_prob d0)" for k
    using that lp by (cases k) (simp_all add: d0_def M_def)
  have run: "runsplit g d0 ?c = Inr (state_after g d0 ?c (Nt g div f g))"
    by (rule runsplit_ok [OF top vop fp]) (simp_all add: sizes M_def rows)
  obtain d psi where s: "state_after g d0 ?c (Nt g div f g) = (d, psi)"
    by (cases "state_after g d0 ?c (Nt g div f g)")
  have M: "0 < M" by (simp add: M_def)
  show thesis
  proof (rule that [of d0 psi0 d psi])
    show "init g = Inr (d0, psi0)" by (rule i)
    show "runsplit g d0 ?c = Inr (d, psi)" using run s by simp
    show "state_after g d0 ?c (Nt g div f g) = (d, psi)" by (rule s)
    show "length (density_prob d0) = Nt g div f g + 1" "length (time_arr d0) = Nt g div f g + 1"
      "length (norm_arr d0) = Nt g div f g + 1"
      using sizes by (simp_all add: M_def)
    show "writes d0 = [(Density, 0), (Norm, 0)]" by (simp add: d0_def)
    show "time_arr d0 ! 0 = 0" "norm_arr d0 ! 0 = 1" using M by (simp_all add: d0_def)
    show "sum_list (abs2 ?c) * dx g = 1" using one by (simp add: abs2_of_real)
  qed
qed

lemma configured_wf:
  "x configured \<noteq> []" "length (x configured) = Nx configured" "0 < dx configured"
  "0 < f configured" "m configured \<noteq> 0" "hbar configured \<noteq> 0"
  "Nt configured div f configured = 1000"
  using x_configured_ne by (simp_all add: configured_def)

lemma main_configured:
  "main = bnd (init configured) (\<lambda>(d, psi). runsplit configured d (map complex_of_real psi))"
  unfolding main_def module_globals_configured by simp

lemma Top_norm:
  assumes "psi \<noteq> []" "length psi = Nx g \<or> Nx g = 1" "real (Nx g) * dx g \<noteq> 0" "m g \<noteq> 0"
  shows "\<exists>r. Top g psi tau = Inr r \<and> discrete_norm g r = discrete_norm g psi"
  using assms by (simp add: Top_ok discrete_norm_def Top_pure_norm)

lemma Vop_norm:
  assumes "length xs = length psi \<or> length xs = 1" "hbar g \<noteq> 0"
  shows "\<exists>r. Vop g psi xs t tau = Inr r \<and> discrete_norm g r = discrete_norm g psi"
  using assms by (simp add: Vop_ok discrete_norm_def Vop_pure_norm)

lemma run_norms:
  assumes "x g \<noteq> []" "length (x g) = Nx g" "0 < dx g" "0 < f g" "m g \<noteq> 0" "hbar g \<noteq> 0"
  shows "\<exists>d0 psi0 d psi. init g = Inr (d0, psi0) \<and>
           runsplit g d0 (map complex_of_real psi0) = Inr (d, psi) \<and>
           length (norm_arr d) = Nt g div f g + 1 \<and>
           (\<forall>k\<le>Nt g div f g. norm_arr d ! k = 1) \<and>
           discrete_norm g psi = 1"
proof (rule run_ok [OF assms])
  fix d0 psi0 d psi
  assume i: "init g = Inr (d0, psi0)"
    and r: "runsplit g d0 (map complex_of_real psi0) = Inr (d, psi)"
    and s: "state_after g d0 (map complex_of_real psi0) (Nt g div f g) = (d, psi)"
    and l: "length (norm_arr d0) = Nt g div f g + 1"
    and z: "norm_arr d0 ! 0 = 1"
    and one: "sum_list (abs2 (map complex_of_real psi0)) * dx g = 1"
  have lt: "Nt g div f g < length (norm_arr d0)"
    using l by simp
  have len: "length (norm_arr d) = Nt g div f g + 1"
    using state_after_lengths [OF s] l by simp
  have nrm: "\<forall>k\<le>Nt g div f g. norm_arr d ! k = 1"
  proof (intro allI impI)
    fix k assume k: "k \<le> Nt g div f g"
    note sn = state_after_norm [OF s lt, of k]
    show "norm_arr d ! k = 1"
    proof (cases "k = 0")
      case True
      then show ?thesis
        using sn z by simp
    next
      case False
      then have "1 \<le> k \<and> k \<le> Nt g div f g" using k by simp
      then have "norm_arr d ! k = sum_list (abs2 (map complex_of_real psi0)) * dx g"
        using sn by blast
      then show ?thesis
        by (simp only: one)
    qed
  qed
  have "sum_list (abs2 psi) = sum_list (abs2 (map complex_of_real psi0))"
    using state_after_psi [OF s] by simp
  then have "discrete_norm g psi = 1"
    using one by (simp only: discrete_norm_def)
  with i r len nrm show ?thesis
    by (intro exI conjI)
qed

text \<open>
  Claim C1. A kinetic step and a potential step of any real duration leave
  \<open>sum(|psi|^2) * dx\<close> unchanged, for every grid and reference time on which
  they return; and in the configured run all \<open>1001\<close> entries of the recorded
  norm history are exactly \<open>1\<close>, hence within \<open>1e-3\<close> of \<open>1\<close>.
\<close>

theorem norm_preservation:
  "(psi \<noteq> [] \<and> (length psi = Nx g \<or> Nx g = 1) \<and> real (Nx g) * dx g \<noteq> 0 \<and> m g \<noteq> 0 \<longrightarrow>
      (\<exists>r. Top g psi tau = Inr r \<and> discrete_norm g r = discrete_norm g psi)) \<and>
   ((length xs = length psi \<or> length xs = 1) \<and> hbar g \<noteq> 0 \<longrightarrow>
      (\<exists>r. Vop g psi xs t tau = Inr r \<and> discrete_norm g r = discrete_norm g psi)) \<and>
   (\<exists>d psi'. main = Inr (d, psi') \<and> length (norm_arr d) = 1001 \<and>
      (\<forall>k<1001. norm_arr d ! k = 1 \<and> \<bar>norm_arr d ! k - 1\<bar> \<le> 1 / 1000))"
proof (intro conjI impI)
  assume "psi \<noteq> [] \<and> (length psi = Nx g \<or> Nx g = 1) \<and> real (Nx g) * dx g \<noteq> 0 \<and> m g \<noteq> 0"
  then show "\<exists>r. Top g psi tau = Inr r \<and> discrete_norm g r = discrete_norm g psi"
    by (intro Top_norm) simp_all
next
  assume "(length xs = length psi \<or> length xs = 1) \<and> hbar g \<noteq> 0"
  then show "\<exists>r. Vop g psi xs t tau = Inr r \<and> discrete_norm g r = discrete_norm g psi"
    by (intro Vop_norm) simp_all
next
  from run_norms [OF configured_wf(1-6)] obtain d0 psi0 d psi' where
    i: "init configured = Inr (d0, psi0)" and
    r: "runsplit configured d0 (map complex_of_real psi0) = Inr (d, psi')" and
    l: "length (norm_arr d) = Nt configured div f configured + 1" and
    n: "\<forall>k\<le>Nt configured div f configured. norm_arr d ! k = 1"
    by (elim exE conjE)
  have l: "length (norm_arr d) = 1001"
    using l by (simp add: configured_wf(7))
  have "main = Inr (d, psi')"
    by (simp add: main_configured i r)
  moreover have "\<forall>k<1001. norm_arr d ! k = 1 \<and> \<bar>norm_arr d ! k - 1\<bar> \<le> 1 / 1000"
  proof (intro allI impI)
    fix k :: nat
    assume "k < 1001"
    then have "k \<le> Nt configured div f configured"
      by (simp only: configured_wf(7))
    from n [rule_format, OF this] show "norm_arr d ! k = 1 \<and> \<bar>norm_arr d ! k - 1\<bar> \<le> 1 / 1000"
      by simp
  qed
  ultimately show "\<exists>d psi'. main = Inr (d, psi') \<and> length (norm_arr d) = 1001 \<and>
      (\<forall>k<1001. norm_arr d ! k = 1 \<and> \<bar>norm_arr d ! k - 1\<bar> \<le> 1 / 1000)"
    using l by blast
qed

theorem norm_preservation_witness:
  "replicate 1000 (1 + \<i>) \<noteq> [] \<and> length (replicate 1000 (1 + \<i>)) = Nx configured \<and>
   real (Nx configured) * dx configured \<noteq> 0 \<and> m configured \<noteq> 0 \<and>
   (\<exists>r. Top configured (replicate 1000 (1 + \<i>)) (1 / 100000) = Inr r \<and>
        discrete_norm configured r = discrete_norm configured (replicate 1000 (1 + \<i>))) \<and>
   length (x configured) = length (replicate 1000 (1 + \<i>)) \<and> hbar configured \<noteq> 0 \<and>
   (\<exists>r. Vop configured (replicate 1000 (1 + \<i>)) (x configured) 0 (1 / 100000) = Inr r \<and>
        discrete_norm configured r = discrete_norm configured (replicate 1000 (1 + \<i>))) \<and>
   (\<exists>d psi'. main = Inr (d, psi') \<and> (1000 :: nat) < 1001 \<and>
        \<bar>norm_arr d ! 1000 - 1\<bar> \<le> 1 / 1000)"
proof -
  have h: "length (x configured) = 1000" "Nx configured = 1000" "dx configured \<noteq> 0"
    "m configured \<noteq> 0" "hbar configured \<noteq> 0"
    by (simp_all add: configured_def)
  note inst = norm_preservation [of "replicate 1000 (1 + \<i>)" configured "1 / 100000" "x configured" 0]
  from inst [THEN conjunct1] h
  have a: "\<exists>r. Top configured (replicate 1000 (1 + \<i>)) (1 / 100000) = Inr r \<and>
        discrete_norm configured r = discrete_norm configured (replicate 1000 (1 + \<i>))"
    by simp
  from inst [THEN conjunct2, THEN conjunct1] h
  have b: "\<exists>r. Vop configured (replicate 1000 (1 + \<i>)) (x configured) 0 (1 / 100000) = Inr r \<and>
        discrete_norm configured r = discrete_norm configured (replicate 1000 (1 + \<i>))"
    by simp
  from inst [THEN conjunct2, THEN conjunct2] obtain d psi' where c: "main = Inr (d, psi')"
    and n: "\<forall>k<1001. norm_arr d ! k = 1 \<and> \<bar>norm_arr d ! k - 1\<bar> \<le> 1 / 1000"
    by (elim exE conjE)
  have lt: "(1000 :: nat) < 1001" by simp
  from n [rule_format, OF lt] have "\<bar>norm_arr d ! 1000 - 1\<bar> \<le> 1 / 1000"
    by (rule conjunct2)
  with c lt have c': "\<exists>d psi'. main = Inr (d, psi') \<and> (1000 :: nat) < 1001 \<and>
        \<bar>norm_arr d ! 1000 - 1\<bar> \<le> 1 / 1000"
    by blast
  have pre: "replicate 1000 (1 + \<i>) \<noteq> [] \<and> length (replicate 1000 (1 + \<i>)) = Nx configured \<and>
      real (Nx configured) * dx configured \<noteq> 0 \<and> m configured \<noteq> 0"
    "length (x configured) = length (replicate 1000 (1 + \<i>)) \<and> hbar configured \<noteq> 0"
    using h by simp_all
  from pre a b c' show ?thesis
    by blast
qed

lemma writes_of_rounds:
  "map snd (filter (\<lambda>w. fst w = b) (concat (map (\<lambda>k. [(Norm, k), (Density, k), (Time, k)]) ks))) = ks"
  by (induction ks) (cases b; simp)+

lemma bnd_Inr_right [simp]: "bnd r Inr = r"
  by (cases r) simp_all

lemma for_loop_single: "for_loop [n] body s = body n s"
  by (cases "body n s") simp_all

lemma state_after_Suc:
  assumes "state_after g d0 psi0 nt = (a, p)" "state_after g d0 psi0 (Suc nt) = (b, q)"
  shows "q = (strang_pure g ^^ f g) p"
    and "density_prob b = (density_prob a)[nt + 1 := abs2 q]"
    and "norm_arr b = (norm_arr a)[nt + 1 := sum_list (abs2 q) * dx g]"
    and "time_arr b = (time_arr a)[nt + 1 := time_arr a ! nt + real (f g) * dt g]"
    and "writes b = writes a @ [(Norm, nt + 1), (Density, nt + 1), (Time, nt + 1)]"
  using assms by (auto simp: Let_def)

lemma state_after_slot:
  assumes "state_after g d0 psi0 nt = (d, psi)" "state_after g d0 psi0 k = (a, p)"
    and "1 \<le> k" "k \<le> nt"
    and "nt < length (density_prob d0)" "nt < length (norm_arr d0)"
  shows "density_prob d ! k = abs2 p \<and> norm_arr d ! k = sum_list (abs2 p) * dx g"
  using assms
proof (induction nt arbitrary: d psi)
  case 0
  then show ?case by simp
next
  case (Suc nt)
  obtain d1 psi1 where s1: "state_after g d0 psi0 nt = (d1, psi1)"
    by (cases "state_after g d0 psi0 nt")
  note upd = state_after_Suc [OF s1 Suc.prems(1)]
  have len: "length (density_prob d1) = length (density_prob d0)"
    "length (norm_arr d1) = length (norm_arr d0)"
    using state_after_lengths [OF s1] by simp_all
  show ?case
  proof (cases "k = Suc nt")
    case True
    then have "a = d" "p = psi"
      using Suc.prems(1,2) by simp_all
    then show ?thesis
      using True upd(2,3) len Suc.prems(5,6) by simp
  next
    case False
    then have "k \<le> nt" using Suc.prems(4) by simp
    then have "density_prob d1 ! k = abs2 p \<and> norm_arr d1 ! k = sum_list (abs2 p) * dx g"
      using Suc.prems by (intro Suc.IH [OF s1]) simp_all
    then show ?thesis
      using False upd(2,3) by simp
  qed
qed

lemma state_after_slot_zero:
  "state_after g d0 psi0 nt = (d, psi) \<Longrightarrow>
     density_prob d ! 0 = density_prob d0 ! 0 \<and> norm_arr d ! 0 = norm_arr d0 ! 0 \<and>
     time_arr d ! 0 = time_arr d0 ! 0"
proof (induction nt arbitrary: d psi)
  case 0
  then show ?case by simp
next
  case (Suc nt)
  obtain d1 psi1 where s1: "state_after g d0 psi0 nt = (d1, psi1)"
    by (cases "state_after g d0 psi0 nt")
  note upd = state_after_Suc [OF s1 Suc.prems]
  show ?case
    using Suc.IH [OF s1] upd(2,3,4) by simp
qed

lemma run_states:
  assumes xne: "x g \<noteq> []" and len: "length (x g) = Nx g" and dxp: "0 < dx g" and fp: "0 < f g"
    and mm: "m g \<noteq> 0" and hb: "hbar g \<noteq> 0"
  obtains d0 psi0 where
    "init g = Inr (d0, psi0)"
    "runsplit g d0 (map complex_of_real psi0) =
       Inr (state_after g d0 (map complex_of_real psi0) (Nt g div f g))"
    "\<And>nt. nt \<le> Nt g div f g \<Longrightarrow>
       for_loop [0..<nt] (outer_step g) (d0, map complex_of_real psi0) =
         Inr (state_after g d0 (map complex_of_real psi0) nt)"
    "\<And>nt. nt < Nt g div f g \<Longrightarrow>
       outer_step g nt (state_after g d0 (map complex_of_real psi0) nt) =
         Inr (state_after g d0 (map complex_of_real psi0) (Suc nt))"
    "length (density_prob d0) = Nt g div f g + 1"
    "length (time_arr d0) = Nt g div f g + 1"
    "length (norm_arr d0) = Nt g div f g + 1"
    "writes d0 = [(Density, 0), (Norm, 0)]"
    "time_arr d0 ! 0 = 0"
proof -
  define s0 where "s0 = sum_list (map (\<lambda>xi. (gauss xi)\<^sup>2) (x g)) * dx g"
  define psi0 where "psi0 = map (\<lambda>xi. gauss xi / sqrt s0) (x g)"
  define M where "M = Nt g div f g + 1"
  define d0 where "d0 =
    \<lparr>density_prob = (replicate M (replicate (Nx g) 0))[0 := map (\<lambda>v. \<bar>v\<bar>\<^sup>2) psi0],
     time_arr = replicate M 0, norm_arr = (replicate M 0)[0 := 1],
     writes = [(Density, 0), (Norm, 0)]\<rparr>"
  let ?c = "map complex_of_real psi0"
  have i: "init g = Inr (d0, psi0)"
    using init_ok [OF xne dxp fp len] by (simp_all add: d0_def psi0_def s0_def M_def)
  have lp: "length ?c = Nx g" "?c \<noteq> []"
    using xne len by (simp_all add: psi0_def)
  have "0 < Nx g" using xne len by (metis length_greater_0_conv)
  then have nz: "real (Nx g) * dx g \<noteq> 0" using dxp by simp
  have top: "Top_chk g (length ?c) = None"
    using lp nz mm by (simp add: Top_chk_def)
  have vop: "Vop_chk g (x g) (length ?c) = None"
    using len hb by (simp add: Vop_chk_def psi0_def)
  have sizes: "length (density_prob d0) = M" "length (time_arr d0) = M" "length (norm_arr d0) = M"
    by (simp_all add: d0_def)
  have rows: "length (density_prob d0 ! k) = length ?c" if "k < length (density_prob d0)" for k
    using that lp by (cases k) (simp_all add: d0_def M_def)
  have run: "runsplit g d0 ?c = Inr (state_after g d0 ?c (Nt g div f g))"
    by (rule runsplit_ok [OF top vop fp]) (simp_all add: sizes M_def rows)
  have loop: "for_loop [0..<nt] (outer_step g) (d0, ?c) = Inr (state_after g d0 ?c nt)"
    if "nt \<le> Nt g div f g" for nt
    by (rule outer_loop_ok [OF top vop]) (use that in \<open>simp_all add: sizes M_def rows\<close>)
  have step: "outer_step g nt (state_after g d0 ?c nt) = Inr (state_after g d0 ?c (Suc nt))"
    if "nt < Nt g div f g" for nt
  proof -
    have "for_loop ([0..<nt] @ [nt]) (outer_step g) (d0, ?c) = Inr (state_after g d0 ?c (Suc nt))"
      using loop [of "Suc nt"] that by (simp del: state_after.simps)
    moreover have "for_loop [0..<nt] (outer_step g) (d0, ?c) = Inr (state_after g d0 ?c nt)"
      using loop [of nt] that by simp
    ultimately show ?thesis
      by (simp only: for_loop_append bnd_Inr for_loop_single)
  qed
  have M: "0 < M" by (simp add: M_def)
  show thesis
  proof (rule that [of d0 psi0])
    show "init g = Inr (d0, psi0)" by (rule i)
    show "runsplit g d0 ?c = Inr (state_after g d0 ?c (Nt g div f g))" by (rule run)
    show "for_loop [0..<nt] (outer_step g) (d0, ?c) = Inr (state_after g d0 ?c nt)"
      if "nt \<le> Nt g div f g" for nt using that by (rule loop)
    show "outer_step g nt (state_after g d0 ?c nt) = Inr (state_after g d0 ?c (Suc nt))"
      if "nt < Nt g div f g" for nt using that by (rule step)
    show "length (density_prob d0) = Nt g div f g + 1" "length (time_arr d0) = Nt g div f g + 1"
      "length (norm_arr d0) = Nt g div f g + 1"
      using sizes by (simp_all add: M_def)
    show "writes d0 = [(Density, 0), (Norm, 0)]" by (simp add: d0_def)
    show "time_arr d0 ! 0 = 0" using M by (simp add: d0_def)
  qed
qed

lemma count_list_rounds:
  "count_list (concat (map (\<lambda>k. [(Norm, k), (Density, k), (Time, k)]) ks)) (b, j) = count_list ks j"
  by (induction ks) (cases b; simp)+

lemma run_contents:
  assumes "x g \<noteq> []" "length (x g) = Nx g" "0 < dx g" "0 < f g" "m g \<noteq> 0" "hbar g \<noteq> 0"
  shows "\<exists>d0 psi0 d psi.
      init g = Inr (d0, psi0) \<and>
      runsplit g d0 (map complex_of_real psi0) = Inr (d, psi) \<and>
      for_loop [0..<Nt g div f g] (outer_step g) (d0, map complex_of_real psi0) = Inr (d, psi) \<and>
      length (density_prob d0) = Nt g div f g + 1 \<and>
      length (time_arr d0) = Nt g div f g + 1 \<and>
      length (norm_arr d0) = Nt g div f g + 1 \<and>
      length (density_prob d) = Nt g div f g + 1 \<and>
      length (time_arr d) = Nt g div f g + 1 \<and>
      length (norm_arr d) = Nt g div f g + 1 \<and>
      writes d0 = [(Density, 0), (Norm, 0)] \<and>
      (\<forall>nt<Nt g div f g. \<exists>a p b q.
          for_loop [0..<nt] (outer_step g) (d0, map complex_of_real psi0) = Inr (a, p) \<and>
          outer_step g nt (a, p) = Inr (b, q) \<and>
          density_prob b = (density_prob a)[nt + 1 := abs2 q] \<and>
          norm_arr b = (norm_arr a)[nt + 1 := sum_list (abs2 q) * dx g] \<and>
          time_arr b = (time_arr a)[nt + 1 := time_arr a ! nt + real (f g) * dt g] \<and>
          writes b = writes a @ [(Norm, nt + 1), (Density, nt + 1), (Time, nt + 1)]) \<and>
      (\<forall>k. 1 \<le> k \<and> k \<le> Nt g div f g \<longrightarrow>
          (\<exists>a p. for_loop [0..<k] (outer_step g) (d0, map complex_of_real psi0) = Inr (a, p) \<and>
             density_prob d ! k = abs2 p \<and> norm_arr d ! k = sum_list (abs2 p) * dx g)) \<and>
      density_prob d ! 0 = density_prob d0 ! 0 \<and>
      norm_arr d ! 0 = norm_arr d0 ! 0 \<and>
      time_arr d ! 0 = 0 \<and>
      writes d = writes d0 @
        concat (map (\<lambda>k. [(Norm, k), (Density, k), (Time, k)]) [1..<Nt g div f g + 1]) \<and>
      (\<forall>k\<le>Nt g div f g. time_arr d ! k = real k * real (f g) * dt g)"
proof (rule run_states [OF assms])
  fix d0 psi0
  let ?c = "map complex_of_real psi0"
  let ?N = "Nt g div f g"
  assume i: "init g = Inr (d0, psi0)"
    and run: "runsplit g d0 ?c = Inr (state_after g d0 ?c ?N)"
    and loop: "\<And>nt. nt \<le> ?N \<Longrightarrow>
        for_loop [0..<nt] (outer_step g) (d0, ?c) = Inr (state_after g d0 ?c nt)"
    and step: "\<And>nt. nt < ?N \<Longrightarrow>
        outer_step g nt (state_after g d0 ?c nt) = Inr (state_after g d0 ?c (Suc nt))"
    and l: "length (density_prob d0) = ?N + 1" "length (time_arr d0) = ?N + 1"
      "length (norm_arr d0) = ?N + 1"
    and w: "writes d0 = [(Density, 0), (Norm, 0)]"
    and z: "time_arr d0 ! 0 = 0"
  obtain d psi where s: "state_after g d0 ?c ?N = (d, psi)"
    by (cases "state_after g d0 ?c ?N")
  have r: "runsplit g d0 ?c = Inr (d, psi)"
    using run s by simp
  have lp: "for_loop [0..<?N] (outer_step g) (d0, ?c) = Inr (d, psi)"
    using loop [of ?N] s by simp
  have l': "length (density_prob d) = ?N + 1" "length (time_arr d) = ?N + 1"
    "length (norm_arr d) = ?N + 1"
    using state_after_lengths [OF s] l by simp_all
  have lt: "?N < length (density_prob d0)" "?N < length (norm_arr d0)" "?N < length (time_arr d0)"
    using l by simp_all
  have iter: "\<forall>nt<?N. \<exists>a p b q.
      for_loop [0..<nt] (outer_step g) (d0, ?c) = Inr (a, p) \<and>
      outer_step g nt (a, p) = Inr (b, q) \<and>
      density_prob b = (density_prob a)[nt + 1 := abs2 q] \<and>
      norm_arr b = (norm_arr a)[nt + 1 := sum_list (abs2 q) * dx g] \<and>
      time_arr b = (time_arr a)[nt + 1 := time_arr a ! nt + real (f g) * dt g] \<and>
      writes b = writes a @ [(Norm, nt + 1), (Density, nt + 1), (Time, nt + 1)]"
  proof (intro allI impI)
    fix nt assume nt: "nt < ?N"
    obtain a p where sa: "state_after g d0 ?c nt = (a, p)"
      by (cases "state_after g d0 ?c nt")
    obtain b q where sb: "state_after g d0 ?c (Suc nt) = (b, q)"
      by (cases "state_after g d0 ?c (Suc nt)")
    have 1: "for_loop [0..<nt] (outer_step g) (d0, ?c) = Inr (a, p)"
      using loop [of nt] nt sa by simp
    have 2: "outer_step g nt (a, p) = Inr (b, q)"
      using step [OF nt] by (simp only: sa sb)
    note upd = state_after_Suc [OF sa sb]
    from 1 2 upd(2-5) show "\<exists>a p b q.
      for_loop [0..<nt] (outer_step g) (d0, ?c) = Inr (a, p) \<and>
      outer_step g nt (a, p) = Inr (b, q) \<and>
      density_prob b = (density_prob a)[nt + 1 := abs2 q] \<and>
      norm_arr b = (norm_arr a)[nt + 1 := sum_list (abs2 q) * dx g] \<and>
      time_arr b = (time_arr a)[nt + 1 := time_arr a ! nt + real (f g) * dt g] \<and>
      writes b = writes a @ [(Norm, nt + 1), (Density, nt + 1), (Time, nt + 1)]"
      by (intro exI conjI)
  qed
  have slots: "\<forall>k. 1 \<le> k \<and> k \<le> ?N \<longrightarrow>
      (\<exists>a p. for_loop [0..<k] (outer_step g) (d0, ?c) = Inr (a, p) \<and>
         density_prob d ! k = abs2 p \<and> norm_arr d ! k = sum_list (abs2 p) * dx g)"
  proof (intro allI impI)
    fix k assume k: "1 \<le> k \<and> k \<le> ?N"
    obtain a p where sa: "state_after g d0 ?c k = (a, p)"
      by (cases "state_after g d0 ?c k")
    have 1: "for_loop [0..<k] (outer_step g) (d0, ?c) = Inr (a, p)"
      using loop [of k] k sa by simp
    have "density_prob d ! k = abs2 p \<and> norm_arr d ! k = sum_list (abs2 p) * dx g"
      using k by (intro state_after_slot [OF s sa _ _ lt(1,2)]) simp_all
    with 1 show "\<exists>a p. for_loop [0..<k] (outer_step g) (d0, ?c) = Inr (a, p) \<and>
         density_prob d ! k = abs2 p \<and> norm_arr d ! k = sum_list (abs2 p) * dx g"
      by blast
  qed
  have zero: "density_prob d ! 0 = density_prob d0 ! 0" "norm_arr d ! 0 = norm_arr d0 ! 0"
    "time_arr d ! 0 = 0"
    using state_after_slot_zero [OF s] z by simp_all
  have wr: "writes d = writes d0 @
      concat (map (\<lambda>k. [(Norm, k), (Density, k), (Time, k)]) [1..<?N + 1])"
    by (rule state_after_writes [OF s])
  have tm: "\<forall>k\<le>?N. time_arr d ! k = real k * real (f g) * dt g"
  proof (intro allI impI)
    fix k assume "k \<le> ?N"
    from state_after_time [OF s lt(3) this] show "time_arr d ! k = real k * real (f g) * dt g"
      by (simp add: z)
  qed
  from i r lp l l' w iter slots zero wr tm show ?thesis
    by (intro exI conjI)
qed

lemma binade_in_range: "2 ^ 52 \<le> q \<Longrightarrow> q < 2 ^ 53 \<Longrightarrow> binade n q e = e"
  by (cases n) simp_all

lemma binade_scale_up:
  "k \<le> n \<Longrightarrow> 0 < q \<Longrightarrow> 2 ^ 52 \<le> q * 2 ^ k \<Longrightarrow> q * 2 ^ k < 2 ^ 53 \<Longrightarrow>
     binade n q e = e - int k"
proof (induction k arbitrary: n q e)
  case 0
  then show ?case by (simp add: binade_in_range)
next
  case (Suc k)
  obtain n' where n: "n = Suc n'" using Suc.prems(1) by (cases n) simp_all
  have "q * 2 \<le> q * 2 ^ Suc k"
    using Suc.prems(2) by simp
  then have small: "q < 2 ^ 52"
    using Suc.prems(4) by simp
  have "binade n' (q * 2) (e - 1) = e - 1 - int k"
    using Suc.prems n by (intro Suc.IH) (simp_all add: mult.assoc)
  then show ?case
    using small by (simp add: n)
qed

lemma double_round_pos:
  assumes "0 < v" "2 ^ 52 \<le> v * 2 ^ k" "v * 2 ^ k < 2 ^ 53" "k \<le> 2200"
  shows "double_round v = of_int (round_even (v * 2 ^ k)) / 2 ^ k"
proof -
  have "binade 2200 \<bar>v\<bar> 0 = - int k"
    using assms binade_scale_up [of k 2200 v 0] by simp
  then show ?thesis
    using assms(1) by (simp add: double_round_def power_int_minus field_simps)
qed

lemma dt_double: "double_round (1 / 100000) = 5902958103587057 / 590295810358705651712"
  by (subst double_round_pos [where k = 69]) (simp_all add: round_even_def Let_def)

lemma double_add_step_1:
  "double_add (0)
     (5902958103587057 / 590295810358705651712) =
     5902958103587057 / 590295810358705651712"
  unfolding double_add_def
  by (subst double_round_pos [where k = 69]) (simp_all add: round_even_def Let_def)

lemma double_add_step_2:
  "double_add (5902958103587057 / 590295810358705651712)
     (5902958103587057 / 590295810358705651712) =
     5902958103587057 / 295147905179352825856"
  unfolding double_add_def
  by (subst double_round_pos [where k = 68]) (simp_all add: round_even_def Let_def)

lemma double_add_step_3:
  "double_add (5902958103587057 / 295147905179352825856)
     (5902958103587057 / 590295810358705651712) =
     4427218577690293 / 147573952589676412928"
  unfolding double_add_def
  by (subst double_round_pos [where k = 68]) (simp_all add: round_even_def Let_def)

lemma double_add_step_4:
  "double_add (4427218577690293 / 147573952589676412928)
     (5902958103587057 / 590295810358705651712) =
     5902958103587057 / 147573952589676412928"
  unfolding double_add_def
  by (subst double_round_pos [where k = 67]) (simp_all add: round_even_def Let_def)

lemma double_add_step_5:
  "double_add (5902958103587057 / 147573952589676412928)
     (5902958103587057 / 590295810358705651712) =
     7378697629483821 / 147573952589676412928"
  unfolding double_add_def
  by (subst double_round_pos [where k = 67]) (simp_all add: round_even_def Let_def)

lemma double_add_step_6:
  "double_add (7378697629483821 / 147573952589676412928)
     (5902958103587057 / 590295810358705651712) =
     8854437155380585 / 147573952589676412928"
  unfolding double_add_def
  by (subst double_round_pos [where k = 67]) (simp_all add: round_even_def Let_def)

lemma double_add_step_7:
  "double_add (8854437155380585 / 147573952589676412928)
     (5902958103587057 / 590295810358705651712) =
     5165088340638675 / 73786976294838206464"
  unfolding double_add_def
  by (subst double_round_pos [where k = 66]) (simp_all add: round_even_def Let_def)

lemma double_add_step_8:
  "double_add (5165088340638675 / 73786976294838206464)
     (5902958103587057 / 590295810358705651712) =
     5902958103587057 / 73786976294838206464"
  unfolding double_add_def
  by (subst double_round_pos [where k = 66]) (simp_all add: round_even_def Let_def)

lemma double_add_step_9:
  "double_add (5902958103587057 / 73786976294838206464)
     (5902958103587057 / 590295810358705651712) =
     6640827866535439 / 73786976294838206464"
  unfolding double_add_def
  by (subst double_round_pos [where k = 66]) (simp_all add: round_even_def Let_def)

lemma double_add_step_10:
  "double_add (6640827866535439 / 73786976294838206464)
     (5902958103587057 / 590295810358705651712) =
     7378697629483821 / 73786976294838206464"
  unfolding double_add_def
  by (subst double_round_pos [where k = 66]) (simp_all add: round_even_def Let_def)

lemma double_add_step_11:
  "double_add (7378697629483821 / 73786976294838206464)
     (5902958103587057 / 590295810358705651712) =
     8116567392432203 / 73786976294838206464"
  unfolding double_add_def
  by (subst double_round_pos [where k = 66]) (simp_all add: round_even_def Let_def)

lemma double_add_step_12:
  "double_add (8116567392432203 / 73786976294838206464)
     (5902958103587057 / 590295810358705651712) =
     8854437155380585 / 73786976294838206464"
  unfolding double_add_def
  by (subst double_round_pos [where k = 66]) (simp_all add: round_even_def Let_def)

lemma double_add_step_13:
  "double_add (8854437155380585 / 73786976294838206464)
     (5902958103587057 / 590295810358705651712) =
     1199038364791121 / 9223372036854775808"
  unfolding double_add_def
  by (subst double_round_pos [where k = 65]) (simp_all add: round_even_def Let_def)

lemma double_add_step_14:
  "double_add (1199038364791121 / 9223372036854775808)
     (5902958103587057 / 590295810358705651712) =
     5165088340638675 / 36893488147419103232"
  unfolding double_add_def
  by (subst double_round_pos [where k = 65]) (simp_all add: round_even_def Let_def)

lemma double_add_step_15:
  "double_add (5165088340638675 / 36893488147419103232)
     (5902958103587057 / 590295810358705651712) =
     2767011611056433 / 18446744073709551616"
  unfolding double_add_def
  by (subst double_round_pos [where k = 65]) (simp_all add: round_even_def Let_def)

lemma double_add_step_16:
  "double_add (2767011611056433 / 18446744073709551616)
     (5902958103587057 / 590295810358705651712) =
     5902958103587057 / 36893488147419103232"
  unfolding double_add_def
  by (subst double_round_pos [where k = 65]) (simp_all add: round_even_def Let_def)

lemma double_add_step_17:
  "double_add (5902958103587057 / 36893488147419103232)
     (5902958103587057 / 590295810358705651712) =
     48999163945791 / 288230376151711744"
  unfolding double_add_def
  by (subst double_round_pos [where k = 65]) (simp_all add: round_even_def Let_def)

lemma double_add_step_18:
  "double_add (48999163945791 / 288230376151711744)
     (5902958103587057 / 590295810358705651712) =
     6640827866535439 / 36893488147419103232"
  unfolding double_add_def
  by (subst double_round_pos [where k = 65]) (simp_all add: round_even_def Let_def)

lemma double_add_step_19:
  "double_add (6640827866535439 / 36893488147419103232)
     (5902958103587057 / 590295810358705651712) =
     3504881374004815 / 18446744073709551616"
  unfolding double_add_def
  by (subst double_round_pos [where k = 65]) (simp_all add: round_even_def Let_def)

lemma double_add_step_20:
  "double_add (3504881374004815 / 18446744073709551616)
     (5902958103587057 / 590295810358705651712) =
     7378697629483821 / 36893488147419103232"
  unfolding double_add_def
  by (subst double_round_pos [where k = 65]) (simp_all add: round_even_def Let_def)

lemma double_add_step_21:
  "double_add (7378697629483821 / 36893488147419103232)
     (5902958103587057 / 590295810358705651712) =
     1936908127739503 / 9223372036854775808"
  unfolding double_add_def
  by (subst double_round_pos [where k = 65]) (simp_all add: round_even_def Let_def)

lemma double_add_step_22:
  "double_add (1936908127739503 / 9223372036854775808)
     (5902958103587057 / 590295810358705651712) =
     8116567392432203 / 36893488147419103232"
  unfolding double_add_def
  by (subst double_round_pos [where k = 65]) (simp_all add: round_even_def Let_def)

lemma double_add_step_23:
  "double_add (8116567392432203 / 36893488147419103232)
     (5902958103587057 / 590295810358705651712) =
     4242751136953197 / 18446744073709551616"
  unfolding double_add_def
  by (subst double_round_pos [where k = 65]) (simp_all add: round_even_def Let_def)

lemma double_add_step_24:
  "double_add (4242751136953197 / 18446744073709551616)
     (5902958103587057 / 590295810358705651712) =
     8854437155380585 / 36893488147419103232"
  unfolding double_add_def
  by (subst double_round_pos [where k = 65]) (simp_all add: round_even_def Let_def)

lemma double_add_step_25:
  "double_add (8854437155380585 / 36893488147419103232)
     (5902958103587057 / 590295810358705651712) =
     1152921504606847 / 4611686018427387904"
  unfolding double_add_def
  by (subst double_round_pos [where k = 64]) (simp_all add: round_even_def Let_def)

lemma double_add_step_26:
  "double_add (1152921504606847 / 4611686018427387904)
     (5902958103587057 / 590295810358705651712) =
     1199038364791121 / 4611686018427387904"
  unfolding double_add_def
  by (subst double_round_pos [where k = 64]) (simp_all add: round_even_def Let_def)

lemma double_add_step_27:
  "double_add (1199038364791121 / 4611686018427387904)
     (5902958103587057 / 590295810358705651712) =
     1245155224975395 / 4611686018427387904"
  unfolding double_add_def
  by (subst double_round_pos [where k = 64]) (simp_all add: round_even_def Let_def)

lemma double_add_step_28:
  "double_add (1245155224975395 / 4611686018427387904)
     (5902958103587057 / 590295810358705651712) =
     1291272085159669 / 4611686018427387904"
  unfolding double_add_def
  by (subst double_round_pos [where k = 64]) (simp_all add: round_even_def Let_def)

lemma double_add_step_29:
  "double_add (1291272085159669 / 4611686018427387904)
     (5902958103587057 / 590295810358705651712) =
     1337388945343943 / 4611686018427387904"
  unfolding double_add_def
  by (subst double_round_pos [where k = 64]) (simp_all add: round_even_def Let_def)

lemma double_add_step_30:
  "double_add (1337388945343943 / 4611686018427387904)
     (5902958103587057 / 590295810358705651712) =
     1383505805528217 / 4611686018427387904"
  unfolding double_add_def
  by (subst double_round_pos [where k = 64]) (simp_all add: round_even_def Let_def)

lemma mul_30:
  "double_round (88544371553805855 / 295147905179352825856) =
     2767011611056433 / 9223372036854775808"
  by (subst double_round_pos [where k = 64]) (simp_all add: round_even_def Let_def)

lemma time_arr_double_3:
  "time_arr_double (double_round (1 / 100000)) 10 3 = 1383505805528217 / 4611686018427387904"
  by (simp add: time_arr_double_def dt_double eval_nat_numeral
      double_add_step_1 double_add_step_2 double_add_step_3 double_add_step_4 double_add_step_5
      double_add_step_6 double_add_step_7 double_add_step_8 double_add_step_9 double_add_step_10
      double_add_step_11 double_add_step_12 double_add_step_13 double_add_step_14 double_add_step_15
      double_add_step_16 double_add_step_17 double_add_step_18 double_add_step_19 double_add_step_20
      double_add_step_21 double_add_step_22 double_add_step_23 double_add_step_24 double_add_step_25
      double_add_step_26 double_add_step_27 double_add_step_28 double_add_step_29 double_add_step_30)

text \<open>
  With \<^verbatim>\<open>dt = 1e-5\<close> and \<^verbatim>\<open>f = 10\<close> the third recorded time is neither the
  binary64 product \<^verbatim>\<open>3 * 10 * dt\<close>, nor that product without rounding, nor
  \<open>3 / 10000\<close>.
\<close>

lemma time_arr_double_deviates:
  "time_arr_double (double_round (1 / 100000)) 10 3 =
     1383505805528217 / 4611686018427387904 \<and>
   time_arr_double (double_round (1 / 100000)) 10 3 \<noteq>
     double_round (real (3 * 10) * double_round (1 / 100000)) \<and>
   time_arr_double (double_round (1 / 100000)) 10 3 \<noteq>
     real (3 * 10) * double_round (1 / 100000) \<and>
   time_arr_double (double_round (1 / 100000)) 10 3 \<noteq> real (3 * 10) * (1 / 100000)"
  unfolding time_arr_double_3 by (simp add: dt_double mul_30)

text \<open>
  Claim C6. The claim as it is written fails in one slot: no assignment ever
  stores into slot \<open>0\<close> of the time array, which keeps the zero of its
  allocation (shown after the witness). What holds: \<open>init\<close> allocates
  the three arrays with \<open>Nt // f + 1\<close> slots and assigns slot \<open>0\<close> of density
  and norm; \<open>runsplit\<close> returns the state of exactly \<open>Nt // f\<close> outer iterations;
  iteration \<open>nt\<close> stores into slot \<open>nt + 1\<close> of each array and leaves every
  other slot as it was, so the slots \<open>1, \<dots>, Nt // f\<close> are written once each, in
  increasing order, and after the run slot \<open>k\<close> still holds the density and the
  norm of the wavefunction after \<open>k\<close> iterations. In real arithmetic the time
  recorded in slot \<open>k\<close> is \<open>k * f * dt\<close>; in binary64 the sums of
  \<^verbatim>\<open>t_current += dt\<close> only come near it (\<open>time_arr_double_deviates\<close>).
\<close>

theorem sampling_schedule_amended:
  "x g \<noteq> [] \<and> length (x g) = Nx g \<and> 0 < dx g \<and> 0 < f g \<and> m g \<noteq> 0 \<and> hbar g \<noteq> 0 \<longrightarrow>
   (\<exists>d0 psi0 d psi.
      init g = Inr (d0, psi0) \<and>
      runsplit g d0 (map complex_of_real psi0) = Inr (d, psi) \<and>
      for_loop [0..<Nt g div f g] (outer_step g) (d0, map complex_of_real psi0) = Inr (d, psi) \<and>
      length (density_prob d0) = Nt g div f g + 1 \<and>
      length (time_arr d0) = Nt g div f g + 1 \<and>
      length (norm_arr d0) = Nt g div f g + 1 \<and>
      length (density_prob d) = Nt g div f g + 1 \<and>
      length (time_arr d) = Nt g div f g + 1 \<and>
      length (norm_arr d) = Nt g div f g + 1 \<and>
      writes d0 = [(Density, 0), (Norm, 0)] \<and>
      (\<forall>nt<Nt g div f g. \<exists>a p b q.
          for_loop [0..<nt] (outer_step g) (d0, map complex_of_real psi0) = Inr (a, p) \<and>
          outer_step g nt (a, p) = Inr (b, q) \<and>
          density_prob b = (density_prob a)[nt + 1 := abs2 q] \<and>
          norm_arr b = (norm_arr a)[nt + 1 := sum_list (abs2 q) * dx g] \<and>
          time_arr b = (time_arr a)[nt + 1 := time_arr a ! nt + real (f g) * dt g] \<and>
          writes b = writes a @ [(Norm, nt + 1), (Density, nt + 1), (Time, nt + 1)]) \<and>
      (\<forall>k. 1 \<le> k \<and> k \<le> Nt g div f g \<longrightarrow>
          (\<exists>a p. for_loop [0..<k] (outer_step g) (d0, map complex_of_real psi0) = Inr (a, p) \<and>
             density_prob d ! k = abs2 p \<and> norm_arr d ! k = sum_list (abs2 p) * dx g)) \<and>
      density_prob d ! 0 = density_prob d0 ! 0 \<and>
      norm_arr d ! 0 = norm_arr d0 ! 0 \<and>
      time_arr d ! 0 = 0 \<and>
      writes d = writes d0 @
        concat (map (\<lambda>k. [(Norm, k), (Density, k), (Time, k)]) [1..<Nt g div f g + 1]) \<and>
      map snd (filter (\<lambda>w. fst w = Time) (writes d)) = [1..<Nt g div f g + 1] \<and>
      map snd (filter (\<lambda>w. fst w = Norm) (writes d)) = [0..<Nt g div f g + 1] \<and>
      map snd (filter (\<lambda>w. fst w = Density) (writes d)) = [0..<Nt g div f g + 1] \<and>
      (\<forall>k\<le>Nt g div f g. time_arr d ! k = real k * real (f g) * dt g))"
proof
  let ?N = "Nt g div f g"
  assume a: "x g \<noteq> [] \<and> length (x g) = Nx g \<and> 0 < dx g \<and> 0 < f g \<and> m g \<noteq> 0 \<and> hbar g \<noteq> 0"
  then have wf: "x g \<noteq> []" "length (x g) = Nx g" "0 < dx g" "0 < f g" "m g \<noteq> 0" "hbar g \<noteq> 0"
    by simp_all
  from run_contents [OF wf]
  obtain d0 psi0 d psi where i: "init g = Inr (d0, psi0)"
    and r: "runsplit g d0 (map complex_of_real psi0) = Inr (d, psi)"
    and lp: "for_loop [0..<?N] (outer_step g) (d0, map complex_of_real psi0) = Inr (d, psi)"
    and l: "length (density_prob d0) = ?N + 1" "length (time_arr d0) = ?N + 1"
      "length (norm_arr d0) = ?N + 1" "length (density_prob d) = ?N + 1"
      "length (time_arr d) = ?N + 1" "length (norm_arr d) = ?N + 1"
    and w: "writes d0 = [(Density, 0), (Norm, 0)]"
    and iter: "\<forall>nt<?N. \<exists>a p b q.
          for_loop [0..<nt] (outer_step g) (d0, map complex_of_real psi0) = Inr (a, p) \<and>
          outer_step g nt (a, p) = Inr (b, q) \<and>
          density_prob b = (density_prob a)[nt + 1 := abs2 q] \<and>
          norm_arr b = (norm_arr a)[nt + 1 := sum_list (abs2 q) * dx g] \<and>
          time_arr b = (time_arr a)[nt + 1 := time_arr a ! nt + real (f g) * dt g] \<and>
          writes b = writes a @ [(Norm, nt + 1), (Density, nt + 1), (Time, nt + 1)]"
    and slots: "\<forall>k. 1 \<le> k \<and> k \<le> ?N \<longrightarrow>
          (\<exists>a p. for_loop [0..<k] (outer_step g) (d0, map complex_of_real psi0) = Inr (a, p) \<and>
             density_prob d ! k = abs2 p \<and> norm_arr d ! k = sum_list (abs2 p) * dx g)"
    and zero: "density_prob d ! 0 = density_prob d0 ! 0" "norm_arr d ! 0 = norm_arr d0 ! 0"
      "time_arr d ! 0 = 0"
    and wr: "writes d = writes d0 @
        concat (map (\<lambda>k. [(Norm, k), (Density, k), (Time, k)]) [1..<?N + 1])"
    and tm: "\<forall>k\<le>?N. time_arr d ! k = real k * real (f g) * dt g"
    by (elim exE conjE)
  have up: "0 # [1..<?N + 1] = [0..<?N + 1]"
    by (simp add: upt_conv_Cons del: upt_Suc)
  have wt: "map snd (filter (\<lambda>w. fst w = Time) (writes d)) = [1..<?N + 1]"
    unfolding wr w filter_append map_append writes_of_rounds by simp
  have wn: "map snd (filter (\<lambda>w. fst w = Norm) (writes d)) = [0..<?N + 1]"
    unfolding wr w filter_append map_append writes_of_rounds up [symmetric] by simp
  have wd: "map snd (filter (\<lambda>w. fst w = Density) (writes d)) = [0..<?N + 1]"
    unfolding wr w filter_append map_append writes_of_rounds up [symmetric] by simp
  from i r lp l w iter slots zero wr wt wn wd tm
  show "\<exists>d0 psi0 d psi.
      init g = Inr (d0, psi0) \<and>
      runsplit g d0 (map complex_of_real psi0) = Inr (d, psi) \<and>
      for_loop [0..<Nt g div f g] (outer_step g) (d0, map complex_of_real psi0) = Inr (d, psi) \<and>
      length (density_prob d0) = Nt g div f g + 1 \<and>
      length (time_arr d0) = Nt g div f g + 1 \<and>
      length (norm_arr d0) = Nt g div f g + 1 \<and>
      length (density_prob d) = Nt g div f g + 1 \<and>
      length (time_arr d) = Nt g div f g + 1 \<and>
      length (norm_arr d) = Nt g div f g + 1 \<and>
      writes d0 = [(Density, 0), (Norm, 0)] \<and>
      (\<forall>nt<Nt g div f g. \<exists>a p b q.
          for_loop [0..<nt] (outer_step g) (d0, map complex_of_real psi0) = Inr (a, p) \<and>
          outer_step g nt (a, p) = Inr (b, q) \<and>
          density_prob b = (density_prob a)[nt + 1 := abs2 q] \<and>
          norm_arr b = (norm_arr a)[nt + 1 := sum_list (abs2 q) * dx g] \<and>
          time_arr b = (time_arr a)[nt + 1 := time_arr a ! nt + real (f g) * dt g] \<and>
          writes b = writes a @ [(Norm, nt + 1), (Density, nt + 1), (Time, nt + 1)]) \<and>
      (\<forall>k. 1 \<le> k \<and> k \<le> Nt g div f g \<longrightarrow>
          (\<exists>a p. for_loop [0..<k] (outer_step g) (d0, map complex_of_real psi0) = Inr (a, p) \<and>
             density_prob d ! k = abs2 p \<and> norm_arr d ! k = sum_list (abs2 p) * dx g)) \<and>
      density_prob d ! 0 = density_prob d0 ! 0 \<and>
      norm_arr d ! 0 = norm_arr d0 ! 0 \<and>
      time_arr d ! 0 = 0 \<and>
      writes d = writes d0 @
        concat (map (\<lambda>k. [(Norm, k), (Density, k), (Time, k)]) [1..<Nt g div f g + 1]) \<and>
      map snd (filter (\<lambda>w. fst w = Time) (writes d)) = [1..<Nt g div f g + 1] \<and>
      map snd (filter (\<lambda>w. fst w = Norm) (writes d)) = [0..<Nt g div f g + 1] \<and>
      map snd (filter (\<lambda>w. fst w = Density) (writes d)) = [0..<Nt g div f g + 1] \<and>
      (\<forall>k\<le>Nt g div f g. time_arr d ! k = real k * real (f g) * dt g)"
    by (intro exI conjI)
qed

theorem sampling_schedule_amended_witness:
  "x configured \<noteq> [] \<and> length (x configured) = Nx configured \<and> 0 < dx configured \<and>
   0 < f configured \<and> m configured \<noteq> 0 \<and> hbar configured \<noteq> 0 \<and>
   Nt configured div f configured = 1000 \<and>
   (\<exists>d0 psi0 d psi. init configured = Inr (d0, psi0) \<and>
      runsplit configured d0 (map complex_of_real psi0) = Inr (d, psi) \<and>
      length (time_arr d) = Nt configured div f configured + 1 \<and>
      999 < Nt configured div f configured \<and>
      (\<exists>a p b q.
          for_loop [0..<999] (outer_step configured) (d0, map complex_of_real psi0) = Inr (a, p) \<and>
          outer_step configured 999 (a, p) = Inr (b, q) \<and>
          density_prob b = (density_prob a)[999 + 1 := abs2 q] \<and>
          norm_arr b = (norm_arr a)[999 + 1 := sum_list (abs2 q) * dx configured] \<and>
          time_arr b =
            (time_arr a)[999 + 1 := time_arr a ! 999 + real (f configured) * dt configured]) \<and>
      1 \<le> (1000 :: nat) \<and> 1000 \<le> Nt configured div f configured \<and>
      (\<exists>a p. for_loop [0..<1000] (outer_step configured) (d0, map complex_of_real psi0) =
                Inr (a, p) \<and>
             density_prob d ! 1000 = abs2 p \<and>
             norm_arr d ! 1000 = sum_list (abs2 p) * dx configured) \<and>
      map snd (filter (\<lambda>w. fst w = Time) (writes d)) = [1..<Nt configured div f configured + 1] \<and>
      time_arr d ! 1000 = 1 / 10)"
proof -
  let ?N = "Nt configured div f configured"
  have pre: "x configured \<noteq> [] \<and> length (x configured) = Nx configured \<and> 0 < dx configured \<and>
      0 < f configured \<and> m configured \<noteq> 0 \<and> hbar configured \<noteq> 0"
    using configured_wf(1-6) by (intro conjI)
  from sampling_schedule_amended [of configured, rule_format, OF pre]
  obtain d0 psi0 d psi where i: "init configured = Inr (d0, psi0)"
    and r: "runsplit configured d0 (map complex_of_real psi0) = Inr (d, psi)"
    and l: "length (time_arr d) = ?N + 1"
    and iter: "\<forall>nt<?N. \<exists>a p b q.
          for_loop [0..<nt] (outer_step configured) (d0, map complex_of_real psi0) = Inr (a, p) \<and>
          outer_step configured nt (a, p) = Inr (b, q) \<and>
          density_prob b = (density_prob a)[nt + 1 := abs2 q] \<and>
          norm_arr b = (norm_arr a)[nt + 1 := sum_list (abs2 q) * dx configured] \<and>
          time_arr b =
            (time_arr a)[nt + 1 := time_arr a ! nt + real (f configured) * dt configured] \<and>
          writes b = writes a @ [(Norm, nt + 1), (Density, nt + 1), (Time, nt + 1)]"
    and slots: "\<forall>k. 1 \<le> k \<and> k \<le> ?N \<longrightarrow>
          (\<exists>a p. for_loop [0..<k] (outer_step configured) (d0, map complex_of_real psi0) =
                    Inr (a, p) \<and>
             density_prob d ! k = abs2 p \<and> norm_arr d ! k = sum_list (abs2 p) * dx configured)"
    and wt: "map snd (filter (\<lambda>w. fst w = Time) (writes d)) = [1..<?N + 1]"
    and tm: "\<forall>k\<le>?N. time_arr d ! k = real k * real (f configured) * dt configured"
    by (elim exE conjE)
  have lt: "999 < ?N" and one: "1 \<le> (1000 :: nat)" and le: "1000 \<le> ?N"
    by (simp_all add: configured_wf(7))
  from iter [rule_format, OF lt] have it: "\<exists>a p b q.
          for_loop [0..<999] (outer_step configured) (d0, map complex_of_real psi0) = Inr (a, p) \<and>
          outer_step configured 999 (a, p) = Inr (b, q) \<and>
          density_prob b = (density_prob a)[999 + 1 := abs2 q] \<and>
          norm_arr b = (norm_arr a)[999 + 1 := sum_list (abs2 q) * dx configured] \<and>
          time_arr b =
            (time_arr a)[999 + 1 := time_arr a ! 999 + real (f configured) * dt configured]"
    by blast
  from slots [rule_format, of 1000] one le
  have sl: "\<exists>a p. for_loop [0..<1000] (outer_step configured) (d0, map complex_of_real psi0) =
                Inr (a, p) \<and>
             density_prob d ! 1000 = abs2 p \<and>
             norm_arr d ! 1000 = sum_list (abs2 p) * dx configured"
    by blast
  from tm [rule_format, OF le] have t: "time_arr d ! 1000 = 1 / 10"
    by (simp add: configured_def)
  from i r l lt it one le sl wt t
  have "init configured = Inr (d0, psi0) \<and>
      runsplit configured d0 (map complex_of_real psi0) = Inr (d, psi) \<and>
      length (time_arr d) = ?N + 1 \<and>
      999 < ?N \<and>
      (\<exists>a p b q.
          for_loop [0..<999] (outer_step configured) (d0, map complex_of_real psi0) = Inr (a, p) \<and>
          outer_step configured 999 (a, p) = Inr (b, q) \<and>
          density_prob b = (density_prob a)[999 + 1 := abs2 q] \<and>
          norm_arr b = (norm_arr a)[999 + 1 := sum_list (abs2 q) * dx configured] \<and>
          time_arr b =
            (time_arr a)[999 + 1 := time_arr a ! 999 + real (f configured) * dt configured]) \<and>
      1 \<le> (1000 :: nat) \<and> 1000 \<le> ?N \<and>
      (\<exists>a p. for_loop [0..<1000] (outer_step configured) (d0, map complex_of_real psi0) =
                Inr (a, p) \<and>
             density_prob d ! 1000 = abs2 p \<and>
             norm_arr d ! 1000 = sum_list (abs2 p) * dx configured) \<and>
      map snd (filter (\<lambda>w. fst w = Time) (writes d)) = [1..<?N + 1] \<and>
      time_arr d ! 1000 = 1 / 10"
    by (intro conjI)
  then have "\<exists>d0 psi0 d psi. init configured = Inr (d0, psi0) \<and>
      runsplit configured d0 (map complex_of_real psi0) = Inr (d, psi) \<and>
      length (time_arr d) = ?N + 1 \<and>
      999 < ?N \<and>
      (\<exists>a p b q.
          for_loop [0..<999] (outer_step configured) (d0, map complex_of_real psi0) = Inr (a, p) \<and>
          outer_step configured 999 (a, p) = Inr (b, q) \<and>
          density_prob b = (density_prob a)[999 + 1 := abs2 q] \<and>
          norm_arr b = (norm_arr a)[999 + 1 := sum_list (abs2 q) * dx configured] \<and>
          time_arr b =
            (time_arr a)[999 + 1 := time_arr a ! 999 + real (f configured) * dt configured]) \<and>
      1 \<le> (1000 :: nat) \<and> 1000 \<le> ?N \<and>
      (\<exists>a p. for_loop [0..<1000] (outer_step configured) (d0, map complex_of_real psi0) =
                Inr (a, p) \<and>
             density_prob d ! 1000 = abs2 p \<and>
             norm_arr d ! 1000 = sum_list (abs2 p) * dx configured) \<and>
      map snd (filter (\<lambda>w. fst w = Time) (writes d)) = [1..<?N + 1] \<and>
      time_arr d ! 1000 = 1 / 10"
    by (intro exI)
  with pre configured_wf(7) show ?thesis
    by (intro conjI) (elim conjE, assumption)+
qed

lemma main_writes:
  "\<exists>d psi. main = Inr (d, psi) \<and>
     writes d = [(Density, 0), (Norm, 0)] @
       concat (map (\<lambda>k. [(Norm, k), (Density, k), (Time, k)])
                 [1..<Nt configured div f configured + 1])"
proof -
  from run_contents [OF configured_wf(1-6)]
  obtain d0 psi0 d psi where i: "init configured = Inr (d0, psi0)"
    and r: "runsplit configured d0 (map complex_of_real psi0) = Inr (d, psi)"
    and w: "writes d0 = [(Density, 0), (Norm, 0)]"
    and wr: "writes d = writes d0 @
        concat (map (\<lambda>k. [(Norm, k), (Density, k), (Time, k)])
                  [1..<Nt configured div f configured + 1])"
    by (elim exE conjE)
  have "main = Inr (d, psi)"
    by (simp add: main_configured i r)
  moreover have "writes d = [(Density, 0), (Norm, 0)] @
       concat (map (\<lambda>k. [(Norm, k), (Density, k), (Time, k)])
                 [1..<Nt configured div f configured + 1])"
    using wr by (simp only: w)
  ultimately show ?thesis by blast
qed

text \<open>
  In the configured run the script returns, and the number of assignments to
  slot \<open>0\<close> of the time array is zero, not one.
\<close>

theorem time_slot_zero_counterexample:
  "\<not> isl main \<and>
   count_list (writes (fst (projr main))) (Time, 0) = 0 \<and>
   count_list (writes (fst (projr main))) (Time, 0) \<noteq> 1"
proof -
  from main_writes obtain d psi where mn: "main = Inr (d, psi)"
    and wr: "writes d = [(Density, 0), (Norm, 0)] @
       concat (map (\<lambda>k. [(Norm, k), (Density, k), (Time, k)])
                 [1..<Nt configured div f configured + 1])"
    by (elim exE conjE)
  have "count_list [1..<Nt configured div f configured + 1] 0 = 0"
    unfolding count_list_0_iff by simp
  then have "count_list (writes d) (Time, 0) = 0"
    unfolding wr count_list_append count_list_rounds by simp
  then show ?thesis
    by (simp add: mn)
qed

lemma outer_step_psi:
  assumes fpos: "1 \<le> f g"
    and t: "nt + 1 < length (time_arr d)" and n: "nt + 1 < length (norm_arr d)"
    and r: "nt + 1 < length (density_prob d)"
    and w: "length (density_prob d ! (nt + 1)) = length psi"
  shows "(case outer_step g nt (d, psi) of Inl e \<Rightarrow> Inl e | Inr (d', psi') \<Rightarrow> Inr psi') =
           strang_repeat g (f g) t0 psi"
proof (cases "Top_chk g (length psi)")
  case (Some e)
  have "outer_step g nt (d, psi) = Inl e"
    by (simp add: outer_step_def Top_eq Some)
  moreover have "strang_repeat g (f g) t0 psi = Inl e"
    using Some fpos by (intro strang_repeat_Top_err) simp_all
  ultimately show ?thesis by simp
next
  case top: None
  show ?thesis
  proof (cases "Vop_chk g (x g) (length psi)")
    case (Some e)
    have ne: "[0..<f g] \<noteq> []" using fpos by simp
    have lp: "length (Top_pure g (- (dt g / 2)) psi) = length psi" by simp
    have "for_loop [0..<f g] (inner_step g) (time_arr d ! nt, Top_pure g (- (dt g / 2)) psi) = Inl e"
      using top Some ne by (intro for_loop_inner_err) simp_all
    moreover have "get_item (time_arr d) nt = Inr (time_arr d ! nt)"
      using t by (simp add: get_item_def)
    ultimately have "outer_step g nt (d, psi) = Inl e"
      using top by (simp add: outer_step_def Top_eq)
    moreover have "strang_repeat g (f g) t0 psi = Inl e"
      using top Some fpos by (intro strang_repeat_Vop_err) simp_all
    ultimately show ?thesis by simp
  next
    case vop: None
    have "strang_repeat g (f g) t0 psi = Inr ((strang_pure g ^^ f g) psi)"
      using top vop by (rule strang_repeat_ok)
    then show ?thesis
      by (simp add: outer_step_ok [OF top vop t n r w])
  qed
qed

text \<open>
  Claim C2. For \<open>f \<ge> 1\<close>, one outer iteration of \<open>runsplit\<close> leaves the
  wavefunction (or raises the exception) that \<open>f\<close> repetitions of the sequence
  \<open>Top(dt/2); Vop(dt); Top(dt/2)\<close> leave, whatever the reference time of the
  latter, the potential not depending on time; the slots \<open>nt\<close> and \<open>nt + 1\<close> of
  the arrays are assumed to exist, so that the recording does not raise. On
  a wavefunction of the length of the grid both return.
\<close>

theorem strang_equivalence:
  "(1 \<le> f g \<and> nt + 1 < length (time_arr d) \<and> nt + 1 < length (norm_arr d) \<and>
    nt + 1 < length (density_prob d) \<and> length (density_prob d ! (nt + 1)) = length psi \<longrightarrow>
      (case outer_step g nt (d, psi) of Inl e \<Rightarrow> Inl e | Inr (d', psi') \<Rightarrow> Inr psi') =
        strang_repeat g (f g) t0 psi) \<and>
   (psi \<noteq> [] \<and> length psi = Nx g \<and> length (x g) = Nx g \<and> real (Nx g) * dx g \<noteq> 0 \<and>
    m g \<noteq> 0 \<and> hbar g \<noteq> 0 \<longrightarrow>
      (\<exists>psi'. strang_repeat g (f g) t0 psi = Inr psi'))"
proof (intro conjI impI)
  assume "1 \<le> f g \<and> nt + 1 < length (time_arr d) \<and> nt + 1 < length (norm_arr d) \<and>
    nt + 1 < length (density_prob d) \<and> length (density_prob d ! (nt + 1)) = length psi"
  then show "(case outer_step g nt (d, psi) of Inl e \<Rightarrow> Inl e | Inr (d', psi') \<Rightarrow> Inr psi') =
        strang_repeat g (f g) t0 psi"
    by (intro outer_step_psi) simp_all
next
  assume a: "psi \<noteq> [] \<and> length psi = Nx g \<and> length (x g) = Nx g \<and> real (Nx g) * dx g \<noteq> 0 \<and>
    m g \<noteq> 0 \<and> hbar g \<noteq> 0"
  then have "Top_chk g (length psi) = None" "Vop_chk g (x g) (length psi) = None"
    by (simp_all add: Top_chk_def Vop_chk_def)
  then show "\<exists>psi'. strang_repeat g (f g) t0 psi = Inr psi'"
    by (simp add: strang_repeat_ok)
qed

theorem strang_equivalence_witness:
  "1 \<le> f configured \<and>
   0 + 1 < length (time_arr \<lparr>density_prob = replicate 2 (replicate 1000 0), time_arr = [0, 0],
                            norm_arr = [0, 0], writes = []\<rparr>) \<and>
   0 + 1 < length (norm_arr \<lparr>density_prob = replicate 2 (replicate 1000 0), time_arr = [0, 0],
                            norm_arr = [0, 0], writes = []\<rparr>) \<and>
   0 + 1 < length (density_prob \<lparr>density_prob = replicate 2 (replicate 1000 0), time_arr = [0, 0],
                               norm_arr = [0, 0], writes = []\<rparr>) \<and>
   length (density_prob \<lparr>density_prob = replicate 2 (replicate 1000 0), time_arr = [0, 0],
                         norm_arr = [0, 0], writes = []\<rparr> ! (0 + 1)) =
     length (replicate 1000 (1 :: complex)) \<and>
   (case outer_step configured 0
           (\<lparr>density_prob = replicate 2 (replicate 1000 0), time_arr = [0, 0],
             norm_arr = [0, 0], writes = []\<rparr>, replicate 1000 1)
    of Inl e \<Rightarrow> Inl e | Inr (d', psi') \<Rightarrow> Inr psi') =
     strang_repeat configured (f configured) 0 (replicate 1000 1) \<and>
   replicate 1000 (1 :: complex) \<noteq> [] \<and> length (replicate 1000 (1 :: complex)) = Nx configured \<and>
   length (x configured) = Nx configured \<and> real (Nx configured) * dx configured \<noteq> 0 \<and>
   m configured \<noteq> 0 \<and> hbar configured \<noteq> 0 \<and>
   (\<exists>psi'. strang_repeat configured (f configured) 0 (replicate 1000 1) = Inr psi')"
proof -
  let ?d = "\<lparr>density_prob = replicate 2 (replicate 1000 0), time_arr = [0, 0],
             norm_arr = [0, 0], writes = []\<rparr>"
  have h1: "1 \<le> f configured \<and> 0 + 1 < length (time_arr ?d) \<and> 0 + 1 < length (norm_arr ?d) \<and>
      0 + 1 < length (density_prob ?d) \<and>
      length (density_prob ?d ! (0 + 1)) = length (replicate 1000 (1 :: complex))"
    by (simp add: configured_def)
  have h2: "replicate 1000 (1 :: complex) \<noteq> [] \<and>
      length (replicate 1000 (1 :: complex)) = Nx configured \<and>
      length (x configured) = Nx configured \<and> real (Nx configured) * dx configured \<noteq> 0 \<and>
      m configured \<noteq> 0 \<and> hbar configured \<noteq> 0"
    by (simp add: configured_def)
  note inst = strang_equivalence [of configured 0 ?d "replicate 1000 1" 0]
  from inst [THEN conjunct1, rule_format, OF h1] inst [THEN conjunct2, rule_format, OF h2] h1 h2
  show ?thesis
    by (intro conjI) (elim conjE, assumption)+
qed

end
